theory Spec2Isabelle
  imports Complex_Main "HOL-Library.Char_ord" "HOL-Library.List_Lexorder" "HOL-Library.Option_ord"
begin

section \<open>JavaScript strings\<close>

text \<open>
  A JavaScript string is a sequence of UTF-16 code units. A \<^typ>\<open>char\<close> stands for one
  code unit, so this development covers the strings whose code units are below 256
  (ASCII and Latin-1); \<^term>\<open>length\<close> is then the \<^verbatim>\<open>.length\<close> of the source.
  The backslash is written \<^term>\<open>CHR 0x5C\<close>, the line feed \<^term>\<open>CHR 0x0A\<close>.
\<close>

text \<open>The class \<^verbatim>\<open>\s\<close> of a regular expression, which is also what \<^verbatim>\<open>trim()\<close> removes:
  tab, line feed, vertical tab, form feed, carriage return, space, no-break space.\<close>

definition is_space :: "char \<Rightarrow> bool" where
  "is_space c = (c \<in> set [CHR 0x09, CHR 0x0A, CHR 0x0B, CHR 0x0C, CHR 0x0D, CHR 0x20, CHR 0xA0])"

text \<open>The class \<^verbatim>\<open>\w\<close>: ASCII letters, digits and the underscore.\<close>

definition is_word :: "char \<Rightarrow> bool" where
  "is_word c = (c \<in> set ''abcdefghijklmnopqrstuvwxyzABCDEFGHIJKLMNOPQRSTUVWXYZ0123456789_'')"

text \<open>The dot of a regular expression matches everything but a line terminator.\<close>

definition is_line_terminator :: "char \<Rightarrow> bool" where
  "is_line_terminator c = (c \<in> set [CHR 0x0A, CHR 0x0D])"

text \<open>\<^verbatim>\<open>toLowerCase()\<close>: the ASCII capitals, and the Latin-1 capitals U+00C0 to U+00DE
  without the multiplication sign U+00D7, move up by 32.\<close>

definition lower_char :: "char \<Rightarrow> char" where
  "lower_char c =
     (case map_of (zip ''ABCDEFGHIJKLMNOPQRSTUVWXYZ'' ''abcdefghijklmnopqrstuvwxyz'') c of
        Some l \<Rightarrow> l
      | None \<Rightarrow>
          (if 192 \<le> (of_char c :: nat) \<and> (of_char c :: nat) \<le> 222 \<and> (of_char c :: nat) \<noteq> 215
           then char_of ((of_char c :: nat) + 32) else c))"

definition toLowerCase :: "string \<Rightarrow> string" where
  "toLowerCase s = map lower_char s"

text \<open>\<^verbatim>\<open>s.includes(t)\<close>: \<open>t\<close> occurs in \<open>s\<close> as a contiguous piece.\<close>

fun starts_with :: "string \<Rightarrow> string \<Rightarrow> bool" where
  "starts_with s [] = True"
| "starts_with [] (c # t) = False"
| "starts_with (a # s) (c # t) = (a = c \<and> starts_with s t)"

fun str_includes :: "string \<Rightarrow> string \<Rightarrow> bool" where
  "str_includes [] t = (t = [])"
| "str_includes (c # s) t = (starts_with (c # s) t \<or> str_includes s t)"

definition trim :: "string \<Rightarrow> string" where
  "trim s = rev (dropWhile is_space (rev (dropWhile is_space s)))"

text \<open>\<^verbatim>\<open>s.split(sep)\<close> for a separator that is one character of a class: the pieces
  between the separators, of which there is always at least one.\<close>

fun split_on :: "(char \<Rightarrow> bool) \<Rightarrow> string \<Rightarrow> string list" where
  "split_on p [] = [[]]"
| "split_on p (c # s) =
     (if p c then [] # split_on p s
      else (case split_on p s of [] \<Rightarrow> [[c]] | h # t \<Rightarrow> (c # h) # t))"

fun join :: "string \<Rightarrow> string list \<Rightarrow> string" where
  "join sep [] = []"
| "join sep [x] = x"
| "join sep (x # y # xs) = x @ sep @ join sep (y # xs)"

text \<open>\<^verbatim>\<open>s.replace(/c/g, d)\<close> for single characters \<open>c\<close> and \<open>d\<close>.\<close>

definition replace_char :: "char \<Rightarrow> char \<Rightarrow> string \<Rightarrow> string" where
  "replace_char c d s = map (\<lambda>x. if x = c then d else x) s"

text \<open>\<^verbatim>\<open>[...new Set(xs)]\<close>: the elements of \<open>xs\<close> in the order of their first occurrence.\<close>

fun set_insert_all :: "'a list \<Rightarrow> 'a list \<Rightarrow> 'a list" where
  "set_insert_all seen [] = seen"
| "set_insert_all seen (x # xs) =
     set_insert_all (if x \<in> set seen then seen else seen @ [x]) xs"

definition dedupe :: "'a list \<Rightarrow> 'a list" where
  "dedupe xs = set_insert_all [] xs"

text \<open>\<^verbatim>\<open>xs.slice(0, n)\<close> for an integer \<open>n\<close>: a negative \<open>n\<close> counts from the end.\<close>

definition slice0 :: "int \<Rightarrow> 'a list \<Rightarrow> 'a list" where
  "slice0 n xs = (if 0 \<le> n then take (nat n) xs else take (length xs - nat (- n)) xs)"

section \<open>The regular expressions of the source\<close>

text \<open>
  Every regular expression of the source is a sequence of items, each a character class
  under one quantifier (exactly one, \<^verbatim>\<open>*\<close>, \<^verbatim>\<open>+\<close>, or the lazy \<^verbatim>\<open>+?\<close>), possibly anchored
  at the end of the input. The matcher backtracks as JavaScript does: an item tries its
  repetition counts in the order of its quantifier (greedy: longest first; lazy: shortest
  first) and takes the first one under which the rest of the pattern matches. It returns
  the number of characters each item consumed.
\<close>

datatype quant = One | Star | Plus | LazyPlus

type_synonym item = "(char \<Rightarrow> bool) \<times> quant"

fun candidates :: "quant \<Rightarrow> nat \<Rightarrow> nat list" where
  "candidates One k = (if 0 < k then [1] else [])"
| "candidates Star k = rev [0..<Suc k]"
| "candidates Plus k = rev [1..<Suc k]"
| "candidates LazyPlus k = [1..<Suc k]"

fun first_some :: "('a \<Rightarrow> 'b option) \<Rightarrow> 'a list \<Rightarrow> 'b option" where
  "first_some f [] = None"
| "first_some f (x # xs) = (case f x of Some y \<Rightarrow> Some y | None \<Rightarrow> first_some f xs)"

lemma first_some_cong [fundef_cong]:
  "xs = ys \<Longrightarrow> (\<And>x. x \<in> set ys \<Longrightarrow> f x = g x) \<Longrightarrow> first_some f xs = first_some g ys"
  by (induction ys arbitrary: xs) (auto split: option.splits)

fun match_items :: "item list \<Rightarrow> bool \<Rightarrow> string \<Rightarrow> nat list option" where
  "match_items [] anchored s = (if anchored \<and> s \<noteq> [] then None else Some [])"
| "match_items ((c, q) # its) anchored s =
     first_some (\<lambda>n. map_option (Cons n) (match_items its anchored (drop n s)))
       (candidates q (length (takeWhile c s)))"

text \<open>A literal piece of a pattern.\<close>

definition lit :: "string \<Rightarrow> item list" where
  "lit s = map (\<lambda>c. ((\<lambda>x. x = c), One)) s"

text \<open>
  \<^verbatim>\<open>s.match(/p/g)\<close>: all matches from left to right, each search starting where the last
  match ended (one character further after an empty match). The source's \<^verbatim>\<open>null\<close> for
  "no match" is the empty list here; the one caller treats both alike.
\<close>

function match_all :: "item list \<Rightarrow> string \<Rightarrow> string list" where
  "match_all p s =
     (case match_items p False s of
        Some ls \<Rightarrow>
          (let n = sum_list ls in
           take n s # (case s of [] \<Rightarrow> [] | _ # t \<Rightarrow> match_all p (drop (n - 1) t)))
      | None \<Rightarrow> (case s of [] \<Rightarrow> [] | _ # t \<Rightarrow> match_all p t))"
  by pat_completeness auto
termination
  by (relation "measure (\<lambda>(p, s). length s)") auto

text \<open>\<^verbatim>\<open>s.replace(/p/g, r)\<close> for a replacement text without \<^verbatim>\<open>$\<close> patterns.\<close>

function replace_all :: "item list \<Rightarrow> string \<Rightarrow> string \<Rightarrow> string" where
  "replace_all p r s =
     (case match_items p False s of
        Some ls \<Rightarrow>
          (let n = sum_list ls in
           r @ (case s of [] \<Rightarrow> []
                | c # t \<Rightarrow> (if n = 0 then [c] else []) @ replace_all p r (drop (n - 1) t)))
      | None \<Rightarrow> (case s of [] \<Rightarrow> [] | c # t \<Rightarrow> c # replace_all p r t))"
  by pat_completeness auto
termination
  by (relation "measure (\<lambda>(p, r, s). length s)") auto

section \<open>The indexer: text normalisation\<close>

text \<open>
  \<^verbatim>\<open>cleanText\<close> of the indexer:
  \<^verbatim>\<open>text.replace(/\s+/g, ' ').replace(/\n\s*\n/g, '\n').replace(/[^\w\s\-.,;:(){}[\]]/g, '').trim()\<close>.
  The characters the third replacement keeps are the safe set.
\<close>

definition is_safe :: "char \<Rightarrow> bool" where
  "is_safe c = (is_word c \<or> is_space c \<or> c \<in> set ''-.,;:(){}[]'')"

definition cleanText :: "string \<Rightarrow> string" where
  "cleanText text =
     trim
       (replace_all [(\<lambda>c. \<not> is_safe c, One)] ''''
         (replace_all [(\<lambda>c. c = CHR 0x0A, One), (is_space, Star), (\<lambda>c. c = CHR 0x0A, One)]
            [CHR 0x0A]
            (replace_all [(is_space, Plus)] '' '' text)))"

text \<open>Two neighbouring whitespace characters somewhere in a string.\<close>

fun has_space_run :: "string \<Rightarrow> bool" where
  "has_space_run (a # b # s) = ((is_space a \<and> is_space b) \<or> has_space_run (b # s))"
| "has_space_run _ = False"


section \<open>The data model (types.ts)\<close>

text \<open>
  The values a JavaScript expression of the source can yield where the static type is not
  kept at run time: \<^verbatim>\<open>undefined\<close>, \<^verbatim>\<open>null\<close>, a string, or a member that a plain object
  inherits from \<^verbatim>\<open>Object.prototype\<close> (named by its property name).
\<close>

datatype jsval = Undefined | Null | Str string | Native string

fun truthy :: "jsval \<Rightarrow> bool" where
  "truthy Undefined = False"
| "truthy Null = False"
| "truthy (Str s) = (s \<noteq> [])"
| "truthy (Native n) = True"

text \<open>
  \<^verbatim>\<open>interface DocumentSection\<close>. Field \<open>f\<close> of the interface is \<open>d_f\<close>. The indexer builds
  documents whose scalar fields are strings (\<open>string DocumentSection\<close>); the search classes
  build them from untyped rows (\<open>jsval DocumentSection\<close>). The optional \<^verbatim>\<open>subsection\<close> is
  set nowhere in the source and is left out.
\<close>

record 'v DocumentSection =
  d_id :: 'v
  d_title :: 'v
  d_content :: 'v
  d_url :: 'v
  d_docType :: 'v
  d_section :: 'v
  d_codeExamples :: "string list"
  d_keywords :: "string list"

text \<open>\<^verbatim>\<open>interface SearchResult\<close>, with the type of the score left open.\<close>

record ('v, 'r) SearchResult =
  r_section :: "'v DocumentSection"
  r_score :: 'r
  r_matches :: "'v list"

text \<open>\<^verbatim>\<open>interface DeadlineDocConfig\<close>.\<close>

record config =
  cfg_docsPath :: string
  cfg_userManualPath :: string
  cfg_scriptingReferencePath :: string
  cfg_pythonReferencePath :: string

text \<open>Every way an operation of the source fails: the errors of the storage engine, and
  the exceptions of the JavaScript run time.\<close>

datatype error =
    NoSuchTable string
  | NoSuchColumn string
  | NotNullFailed string
  | UniqueFailed string
  | FtsSyntaxError
  | TypeError
  | SyntaxError

section \<open>What the source takes from its libraries\<close>

text \<open>
  The parsed page of \<^verbatim>\<open>node-html-parser\<close>, by what the indexer reads from it:
  \<^item> \<open>querySelector sel\<close> is the \<^verbatim>\<open>.text\<close> of \<^verbatim>\<open>root.querySelector(sel)\<close>, \<open>None\<close> for
    \<^verbatim>\<open>null\<close>;
  \<^item> \<open>strippedText sel removed\<close> is \<^verbatim>\<open>el.innerText || el.text || ''\<close> of the first element
    \<open>el\<close> matching \<open>sel\<close> once its descendants matching a selector of \<open>removed\<close> are
    removed, \<open>None\<close> when nothing matches \<open>sel\<close>;
  \<^item> \<open>querySelectorAll sel\<close> lists \<^verbatim>\<open>el.innerText || el.text || ''\<close> of the elements
    matching \<open>sel\<close>, as the tree stands when the code examples are extracted.

  The variable \<^verbatim>\<open>root\<close> of the source is \<open>root_node\<close> below.
\<close>

record html_root =
  querySelector :: "string \<Rightarrow> string option"
  strippedText :: "string \<Rightarrow> string list \<Rightarrow> string option"
  querySelectorAll :: "string \<Rightarrow> string list"

text \<open>
  The file system and the path functions of Node.js, and the parser: \<open>fs_access\<close> says
  whether a path can be reached, \<open>fs_readFile\<close> is \<open>None\<close> where reading raises, \<open>glob\<close>
  lists the files of a pattern. The corpus of an indexing run is this environment.
\<close>

record node_env =
  fs_access :: "string \<Rightarrow> bool"
  fs_readFile :: "string \<Rightarrow> string option"
  glob :: "string \<Rightarrow> string list"
  parse :: "string \<Rightarrow> html_root"
  path_join :: "string \<Rightarrow> string \<Rightarrow> string"
  path_relative :: "string \<Rightarrow> string \<Rightarrow> string"
  path_basename :: "string \<Rightarrow> string \<Rightarrow> string"

section \<open>The store\<close>

text \<open>
  The SQLite database both classes open. A stored value is \<^verbatim>\<open>NULL\<close> or a text (the
  indexer stores nothing else). A table has its declared column names, the columns under
  a \<^verbatim>\<open>PRIMARY KEY\<close> or \<^verbatim>\<open>UNIQUE\<close> constraint, the columns declared \<^verbatim>\<open>NOT NULL\<close>, and its
  rows in rowid order, each with its rowid. The database holds the table \<^verbatim>\<open>documents\<close>,
  the rows written to the full-text table \<^verbatim>\<open>documents_fts\<close> (columns title, content,
  keywords, section, docType) and whether the trigger \<^verbatim>\<open>documents_ai\<close> exists;
  \<open>None\<close> is a table that does not exist.
\<close>

datatype sqlval = SqlNull | SqlText string

record sqltable =
  columns :: "string list"
  unique_cols :: "string list"
  notnull_cols :: "string list"
  rows :: "(nat \<times> sqlval list) list"

record database =
  documents :: "sqltable option"
  documents_fts :: "(nat \<times> sqlval list) list option"
  documents_ai :: bool

text \<open>SQLite compares identifiers without regard to ASCII case.\<close>

definition ascii_lower :: "string \<Rightarrow> string" where
  "ascii_lower s =
     map (\<lambda>c. case map_of (zip ''ABCDEFGHIJKLMNOPQRSTUVWXYZ'' ''abcdefghijklmnopqrstuvwxyz'') c of
                 Some l \<Rightarrow> l | None \<Rightarrow> c) s"

definition has_column :: "sqltable \<Rightarrow> string \<Rightarrow> bool" where
  "has_column t name = (ascii_lower name \<in> set (map ascii_lower (columns t)))"

text \<open>The value of a row in a column (\<^verbatim>\<open>NULL\<close> where the row is too short).\<close>

definition col :: "sqltable \<Rightarrow> string \<Rightarrow> sqlval list \<Rightarrow> sqlval" where
  "col t name vals =
     (case map_of (zip (map ascii_lower (columns t)) vals) (ascii_lower name) of
        Some v \<Rightarrow> v | None \<Rightarrow> SqlNull)"

definition next_rowid :: "(nat \<times> sqlval list) list \<Rightarrow> nat" where
  "next_rowid rs = fold max (map fst rs) 0 + 1"

section \<open>The indexer (UniversalDocIndexer)\<close>

subsection \<open>initDatabase\<close>

text \<open>The table of \<^verbatim>\<open>CREATE TABLE IF NOT EXISTS documents (id TEXT PRIMARY KEY, title TEXT
  NOT NULL, content TEXT NOT NULL, section TEXT, docType TEXT NOT NULL, url TEXT, keywords
  TEXT)\<close>.\<close>

definition created_documents :: sqltable where
  "created_documents =
     \<lparr>columns = [''id'', ''title'', ''content'', ''section'', ''docType'', ''url'', ''keywords''],
      unique_cols = [''id''],
      notnull_cols = [''title'', ''content'', ''docType''],
      rows = []\<rparr>"

text \<open>
  The five statements of \<^verbatim>\<open>initDatabase\<close> in their order: the two \<^verbatim>\<open>DROP TABLE IF EXISTS\<close>
  (dropping a table drops its triggers), the two \<^verbatim>\<open>CREATE ... IF NOT EXISTS\<close> and the
  \<^verbatim>\<open>CREATE TRIGGER IF NOT EXISTS\<close>.
\<close>

definition initDatabase :: "database \<Rightarrow> database" where
  "initDatabase db =
     (let db1 = db\<lparr>documents := None, documents_ai := False\<rparr>;
          db2 = db1\<lparr>documents_fts := None\<rparr>;
          db3 = (if documents db2 = None then db2\<lparr>documents := Some created_documents\<rparr> else db2);
          db4 = (if documents_fts db3 = None then db3\<lparr>documents_fts := Some []\<rparr> else db3);
          db5 = (if documents_ai db4 then db4 else db4\<lparr>documents_ai := True\<rparr>)
      in db5)"

subsection \<open>isNavigationPage\<close>

definition navIndicators :: "string list" where
  "navIndicators =
     [''Member List'', ''Class Members'', ''File List'', ''Directory Reference'',
      ''Class List'', ''Namespace List'', ''Function Index'', ''Variable Index'',
      ''Index'', ''Contents'', ''Table of Contents'']"

definition isNavigationPage :: "string \<Rightarrow> string \<Rightarrow> bool" where
  "isNavigationPage title content =
     (let titleLower = toLowerCase title;
          contentLower = toLowerCase content
      in list_ex (\<lambda>indicator.
            str_includes titleLower (toLowerCase indicator) \<or>
            (str_includes contentLower ''list of'' \<and> length contentLower < 1000))
          navIndicators)"

subsection \<open>extractMainContent\<close>

definition contentSelectors :: "string list" where
  "contentSelectors =
     [''.document .body'', ''.contents'', ''main'', ''.content'', ''article'', ''#content'',
      ''.main-content'']"

definition elementsToRemove :: "string list" where
  "elementsToRemove =
     [''.sphinxsidebar'', ''.sidebar'', ''.navigation'', ''.nav'',
      ''.footer'', ''.header'', ''.breadcrumb'', ''.toc'',
      ''script'', ''style'', ''.highlight pre'', ''nav'']"

definition extractMainContent :: "html_root \<Rightarrow> string" where
  "extractMainContent root_node =
     (case first_some (\<lambda>selector. strippedText root_node selector elementsToRemove) contentSelectors of
        Some text \<Rightarrow> cleanText text
      | None \<Rightarrow>
          (case strippedText root_node ''body'' elementsToRemove of
             Some text \<Rightarrow> cleanText text
           | None \<Rightarrow> []))"

subsection \<open>extractCodeExamples\<close>

definition codeSelectors :: "string list" where
  "codeSelectors = [''pre code'', ''code'', ''.highlight'', ''.codehilite'', ''.code-block'']"

definition extractCodeExamples :: "html_root \<Rightarrow> string list" where
  "extractCodeExamples root_node =
     dedupe
       (concat (map (\<lambda>selector.
          map cleanText
            (filter (\<lambda>code. length code > 20 \<and> length code < 2000) (querySelectorAll root_node selector)))
          codeSelectors))"

subsection \<open>extractKeywords\<close>

definition deadlineTerms :: "string list" where
  "deadlineTerms =
     [''deadline'', ''render'', ''job'', ''worker'', ''slave'', ''submit'', ''plugin'',
      ''repository'', ''monitor'', ''pool'', ''group'', ''limit'', ''task'', ''frame'',
      ''script'', ''python'', ''maya'', ''max'', ''nuke'', ''houdini'', ''blender'',
      ''deadlinecon'', ''clientutils'', ''repositoryutils'', ''jobutils'',
      ''farm'', ''queue'', ''priority'', ''timeout'', ''event'', ''command'']"

definition progTerms :: "string list" where
  "progTerms = [''function'', ''class'', ''method'', ''parameter'', ''return'', ''import'', ''module'']"

definition extractKeywords :: "string \<Rightarrow> string \<Rightarrow> string list" where
  "extractKeywords content title =
     (let allText = toLowerCase (title @ '' '' @ content)
      in dedupe (filter (\<lambda>term. str_includes allText term) deadlineTerms @
                 filter (\<lambda>term. str_includes allText term) progTerms))"

subsection \<open>extractSection\<close>

text \<open>
  The pattern \<^verbatim>\<open>/^(.+?)\s*[-\u2013\u2014]\s*(.+)$/\<close> on the title (the source writes the
  en dash and the em dash themselves): of the three dashes of its class only the hyphen
  is a code unit below 256. The first item is the first group.
\<close>

definition sectionPattern :: "item list" where
  "sectionPattern =
     [(\<lambda>c. \<not> is_line_terminator c, LazyPlus), (is_space, Star), (\<lambda>c. c = CHR ''-'', One),
      (is_space, Star), (\<lambda>c. \<not> is_line_terminator c, Plus)]"

definition extractSection :: "string \<Rightarrow> string \<Rightarrow> string" where
  "extractSection title filePath =
     (let pathParts = split_on (\<lambda>c. c = CHR ''/'' \<or> c = CHR 0x5C) filePath;
          fromPath =
            (if length pathParts > 1
             then (let part = pathParts ! (length pathParts - 2)
                   in if part \<noteq> [] \<and> part \<noteq> ''manual'' \<and> part \<noteq> ''html''
                      then Some (replace_char (CHR ''_'') (CHR '' '') (replace_char (CHR ''-'') (CHR '' '') part))
                      else None)
             else None)
      in case fromPath of
           Some s \<Rightarrow> s
         | None \<Rightarrow>
             (case match_items sectionPattern True title of
                Some (n # _) \<Rightarrow> trim (take n title)
              | _ \<Rightarrow> []))"

subsection \<open>insertDocument\<close>

text \<open>\<^verbatim>\<open>JSON.stringify\<close> of an array of strings.\<close>

definition hex_digit :: "nat \<Rightarrow> char" where
  "hex_digit n = ''0123456789abcdef'' ! (n mod 16)"

definition json_escape :: "char \<Rightarrow> string" where
  "json_escape c =
     (if c = CHR 0x22 then [CHR 0x5C, CHR 0x22]
      else if c = CHR 0x5C then [CHR 0x5C, CHR 0x5C]
      else if c = CHR 0x08 then [CHR 0x5C, CHR ''b'']
      else if c = CHR 0x0C then [CHR 0x5C, CHR ''f'']
      else if c = CHR 0x0A then [CHR 0x5C, CHR ''n'']
      else if c = CHR 0x0D then [CHR 0x5C, CHR ''r'']
      else if c = CHR 0x09 then [CHR 0x5C, CHR ''t'']
      else if (of_char c :: nat) < 32
        then [CHR 0x5C, CHR ''u'', CHR ''0'', CHR ''0'',
              hex_digit ((of_char c :: nat) div 16), hex_digit (of_char c :: nat)]
      else [c])"

definition json_quote :: "string \<Rightarrow> string" where
  "json_quote s = [CHR 0x22] @ concat (map json_escape s) @ [CHR 0x22]"

definition JSON_stringify :: "string list \<Rightarrow> string" where
  "JSON_stringify xs = ''['' @ join '','' (map json_quote xs) @ '']''"

text \<open>
  \<^verbatim>\<open>INSERT INTO documents (id, title, content, section, docType, url, keywords) VALUES
  (?, ?, ?, ?, ?, ?, ?)\<close>: the statement needs the table and each of the seven columns; a
  column it does not name gets \<^verbatim>\<open>NULL\<close>; the \<^verbatim>\<open>NOT NULL\<close> and uniqueness constraints are
  checked; the row gets the next rowid. Where the trigger exists it copies the new row's
  title, content, keywords, section and docType to the full-text table, and its failure
  fails the statement as a whole.
\<close>

definition insert_columns :: "string list" where
  "insert_columns = [''id'', ''title'', ''content'', ''section'', ''docType'', ''url'', ''keywords'']"

definition fts_columns :: "string list" where
  "fts_columns = [''title'', ''content'', ''keywords'', ''section'', ''docType'']"

definition row_values :: "sqltable \<Rightarrow> string DocumentSection \<Rightarrow> sqlval list" where
  "row_values t doc =
     (let params = zip (map ascii_lower insert_columns)
            [d_id doc, d_title doc, d_content doc, d_section doc, d_docType doc,
             d_url doc, JSON_stringify (d_keywords doc)]
      in map (\<lambda>c. case map_of params (ascii_lower c) of
                     Some v \<Rightarrow> SqlText v | None \<Rightarrow> SqlNull) (columns t))"

definition insertDocument :: "database \<Rightarrow> string DocumentSection \<Rightarrow> error + database" where
  "insertDocument db doc =
     (case documents db of
        None \<Rightarrow> Inl (NoSuchTable ''documents'')
      | Some t \<Rightarrow>
          (case find (\<lambda>c. \<not> has_column t c) insert_columns of
             Some c \<Rightarrow> Inl (NoSuchColumn c)
           | None \<Rightarrow>
               (let vals = row_values t doc
                in case find (\<lambda>c. col t c vals = SqlNull) (notnull_cols t) of
                     Some c \<Rightarrow> Inl (NotNullFailed c)
                   | None \<Rightarrow>
                       (case find (\<lambda>c. col t c vals \<noteq> SqlNull \<and>
                                        list_ex (\<lambda>(_, old). col t c old = col t c vals) (rows t))
                               (unique_cols t) of
                          Some c \<Rightarrow> Inl (UniqueFailed c)
                        | None \<Rightarrow>
                            (let rowid = next_rowid (rows t);
                                 t' = t\<lparr>rows := rows t @ [(rowid, vals)]\<rparr>
                             in if documents_ai db
                                then (case documents_fts db of
                                        None \<Rightarrow> Inl (NoSuchTable ''documents_fts'')
                                      | Some index \<Rightarrow>
                                          (case find (\<lambda>c. \<not> has_column t c) fts_columns of
                                             Some c \<Rightarrow> Inl (NoSuchColumn c)
                                           | None \<Rightarrow>
                                               Inr (db\<lparr>documents := Some t',
                                                       documents_fts :=
                                                         Some (index @ [(rowid, map (\<lambda>c. col t c vals) fts_columns)])\<rparr>)))
                                else Inr (db\<lparr>documents := Some t'\<rparr>))))))"

subsection \<open>processHtmlFile\<close>

text \<open>The title of a page: the cleaned \<^verbatim>\<open>title\<close> element, overridden by the cleaned first
  \<^verbatim>\<open>h1\<close> when that has text; empty when the page has neither.\<close>

definition pageTitle :: "html_root \<Rightarrow> string" where
  "pageTitle root_node =
     (let title0 = (case querySelector root_node ''title'' of
                      Some t \<Rightarrow> cleanText t | None \<Rightarrow> [])
      in case querySelector root_node ''h1'' of
           Some h \<Rightarrow> if trim h \<noteq> [] then cleanText h else title0
         | None \<Rightarrow> title0)"

text \<open>
  The first part of \<^verbatim>\<open>processHtmlFile\<close>, up to the \<^verbatim>\<open>DocumentSection\<close> it builds: \<open>None\<close>
  where the source returns \<^verbatim>\<open>false\<close> before that (the file cannot be read, the page is
  a navigation page, the content is too short).
\<close>

definition buildDocument ::
  "node_env \<Rightarrow> config \<Rightarrow> string \<Rightarrow> string \<Rightarrow> string DocumentSection option" where
  "buildDocument env cfg filePath docType =
     (case fs_readFile env filePath of
        None \<Rightarrow> None
      | Some htmlContent \<Rightarrow>
          (let root_node = parse env htmlContent;
               title = pageTitle root_node
           in if isNavigationPage title htmlContent then None
              else
                (let content = extractMainContent root_node
                 in if length content < 50 then None
                    else
                      (let keywords = extractKeywords content title;
                           codeExamples = extractCodeExamples root_node;
                           relativePath = path_relative env (cfg_docsPath cfg) filePath;
                           docId = docType @ '':'' @ replace_char (CHR 0x5C) (CHR ''/'') relativePath;
                           sectionName = extractSection title filePath
                       in Some
                            \<lparr>d_id = docId,
                             d_title = (if title \<noteq> [] then title else path_basename env filePath ''.html''),
                             d_content = content @ '' '' @ join '' '' codeExamples,
                             d_url = replace_char (CHR 0x5C) (CHR ''/'') relativePath,
                             d_docType = docType,
                             d_section = sectionName,
                             d_codeExamples = codeExamples,
                             d_keywords = keywords\<rparr>))))"

text \<open>\<^verbatim>\<open>processHtmlFile\<close>: the document is inserted; every exception is caught and gives
  \<^verbatim>\<open>false\<close>. The result is the returned flag and the store afterwards.\<close>

definition processHtmlFile ::
  "node_env \<Rightarrow> config \<Rightarrow> string \<Rightarrow> string \<Rightarrow> database \<Rightarrow> bool \<times> database" where
  "processHtmlFile env cfg filePath docType db =
     (case buildDocument env cfg filePath docType of
        None \<Rightarrow> (False, db)
      | Some document \<Rightarrow>
          (case insertDocument db document of
             Inl err \<Rightarrow> (False, db)
           | Inr db' \<Rightarrow> (True, db')))"

subsection \<open>The indexing run\<close>

text \<open>\<^verbatim>\<open>indexDocumentationType\<close>: a path that cannot be reached is skipped; the files
  of the pattern are processed in order. The counters are only logged.\<close>

definition indexDocumentationType ::
  "node_env \<Rightarrow> config \<Rightarrow> string \<Rightarrow> string \<Rightarrow> database \<Rightarrow> database" where
  "indexDocumentationType env cfg docType docsPath db =
     (if \<not> fs_access env docsPath then db
      else
        (let pattern = replace_char (CHR 0x5C) (CHR ''/'') (path_join env docsPath ''**/*.html'');
             htmlFiles = glob env pattern
         in fold (\<lambda>filePath d. snd (processHtmlFile env cfg filePath docType d)) htmlFiles db))"

definition indexAllDocumentation :: "node_env \<Rightarrow> config \<Rightarrow> database \<Rightarrow> database" where
  "indexAllDocumentation env cfg db =
     (let db1 = indexDocumentationType env cfg ''user-manual'' (cfg_userManualPath cfg) db;
          db2 = indexDocumentationType env cfg ''scripting-reference'' (cfg_scriptingReferencePath cfg) db1;
          db3 = indexDocumentationType env cfg ''python-reference'' (cfg_pythonReferencePath cfg) db2
      in db3)"

text \<open>The indexer's own statistics, \<^verbatim>\<open>showIndexStats\<close>: the count of
  \<^verbatim>\<open>SELECT COUNT(*) as count FROM documents\<close> and the rows of
  \<^verbatim>\<open>SELECT docType, COUNT(*) as count FROM documents GROUP BY docType\<close>, which it logs.\<close>

definition sql_key :: "sqlval \<Rightarrow> string option" where
  "sql_key v = (case v of SqlNull \<Rightarrow> None | SqlText s \<Rightarrow> Some s)"

definition group_counts :: "string option list \<Rightarrow> (string option \<times> nat) list" where
  "group_counts ks = map (\<lambda>k. (k, count_list ks k)) (sort (remdups ks))"

definition showIndexStats :: "database \<Rightarrow> error + nat \<times> (string option \<times> nat) list" where
  "showIndexStats db =
     (case documents db of
        None \<Rightarrow> Inl (NoSuchTable ''documents'')
      | Some t \<Rightarrow>
          (if \<not> has_column t ''docType'' then Inl (NoSuchColumn ''docType'')
           else Inr (length (rows t),
                     group_counts (map (\<lambda>(_, vals). sql_key (col t ''docType'' vals)) (rows t)))))"

text \<open>A full indexing run, as the command line of the indexer performs it:
  \<^verbatim>\<open>await indexer.initialize(); await indexer.indexAllDocumentation()\<close>.\<close>

definition runIndexer :: "node_env \<Rightarrow> config \<Rightarrow> database \<Rightarrow> database" where
  "runIndexer env cfg db = indexAllDocumentation env cfg (initDatabase db)"

section \<open>The search class (DeadlineDocSearch)\<close>

subsection \<open>Rows as JavaScript objects\<close>

definition js_of :: "sqlval \<Rightarrow> jsval" where
  "js_of v = (case v of SqlNull \<Rightarrow> Null | SqlText s \<Rightarrow> Str s)"

text \<open>The members every plain object inherits from \<^verbatim>\<open>Object.prototype\<close>.\<close>

definition Object_prototype_members :: "string list" where
  "Object_prototype_members =
     [''constructor'', ''__defineGetter__'', ''__defineSetter__'', ''hasOwnProperty'',
      ''__lookupGetter__'', ''__lookupSetter__'', ''isPrototypeOf'', ''propertyIsEnumerable'',
      ''toString'', ''valueOf'', ''__proto__'', ''toLocaleString'']"

text \<open>\<^verbatim>\<open>obj[k]\<close> on a plain object given by its own properties: an own property, else an
  inherited member, else \<^verbatim>\<open>undefined\<close>. Property names are case-sensitive.\<close>

definition js_prop :: "(string \<times> jsval) list \<Rightarrow> string \<Rightarrow> jsval" where
  "js_prop obj k =
     (case map_of obj k of
        Some v \<Rightarrow> v
      | None \<Rightarrow> if k \<in> set Object_prototype_members then Native k else Undefined)"

text \<open>The object the driver builds for a row of \<^verbatim>\<open>SELECT *\<close>: one property per declared
  column, under the declared name.\<close>

definition row_object :: "sqltable \<Rightarrow> sqlval list \<Rightarrow> (string \<times> jsval) list" where
  "row_object t vals = zip (columns t) (map js_of vals)"

subsection \<open>JSON.parse\<close>

text \<open>
  \<^verbatim>\<open>JSON.parse\<close> on the texts that denote an array of strings, which is what the indexer
  stores in the keywords column. \<open>None\<close> is the \<^verbatim>\<open>SyntaxError\<close> of a malformed text; a
  well-formed text of another shape (a number, an object, an array with other elements) and
  an escape \<^verbatim>\<open>\uXXXX\<close> of a code unit above 255 are outside this development and give
  \<open>None\<close> as well.
\<close>

definition json_ws :: "char \<Rightarrow> bool" where
  "json_ws c = (c \<in> set [CHR 0x20, CHR 0x09, CHR 0x0A, CHR 0x0D])"

definition hex_value :: "char \<Rightarrow> nat option" where
  "hex_value c =
     map_of (zip ''0123456789abcdefABCDEF''
               [0, 1, 2, 3, 4, 5, 6, 7, 8, 9, 10, 11, 12, 13, 14, 15, 10, 11, 12, 13, 14, 15]) c"

definition simple_escapes :: "(char \<times> char) list" where
  "simple_escapes =
     [(CHR 0x22, CHR 0x22), (CHR 0x5C, CHR 0x5C), (CHR ''/'', CHR ''/''), (CHR ''b'', CHR 0x08),
      (CHR ''f'', CHR 0x0C), (CHR ''n'', CHR 0x0A), (CHR ''r'', CHR 0x0D), (CHR ''t'', CHR 0x09)]"

text \<open>The characters of a string after its opening quote: the decoded string and the
  text after the closing quote.\<close>

fun json_string_body :: "string \<Rightarrow> (string \<times> string) option" where
  "json_string_body [] = None"
| "json_string_body (c # s) =
     (if c = CHR 0x22 then Some ([], s)
      else if c = CHR 0x5C then
        (case s of
           [] \<Rightarrow> None
         | e # s1 \<Rightarrow>
             (if e = CHR ''u'' then
                (case s1 of
                   h1 # h2 # h3 # h4 # s2 \<Rightarrow>
                     (case (hex_value h1, hex_value h2, hex_value h3, hex_value h4) of
                        (Some a, Some b, Some c', Some d) \<Rightarrow>
                          (let n = ((a * 16 + b) * 16 + c') * 16 + d
                           in if n < 256
                              then map_option (\<lambda>(x, r). (char_of n # x, r)) (json_string_body s2)
                              else None)
                      | _ \<Rightarrow> None)
                 | _ \<Rightarrow> None)
              else
                (case map_of simple_escapes e of
                   None \<Rightarrow> None
                 | Some x \<Rightarrow> map_option (\<lambda>(d, r). (x # d, r)) (json_string_body s1))))
      else if (of_char c :: nat) < 32 then None
      else map_option (\<lambda>(d, r). (c # d, r)) (json_string_body s))"

lemma json_string_body_shorter:
  "json_string_body s = Some (x, r) \<Longrightarrow> length r < length s"
proof (induction s arbitrary: x r rule: json_string_body.induct)
  case 1
  then show ?case by simp
next
  case (2 c s)
  show ?case
  proof (cases "c = CHR 0x22")
    case True
    then show ?thesis using 2(4) by auto
  next
    case False
    then show ?thesis using 2
      by (fastforce split: if_splits list.splits option.splits simp: Let_def)
  qed
qed

text \<open>The elements of a non-empty array, from its first element on.\<close>

function json_elements :: "string \<Rightarrow> string list option" where
  "json_elements s =
     (case s of
        [] \<Rightarrow> None
      | c # s1 \<Rightarrow>
          (if c \<noteq> CHR 0x22 then None
           else
             (case json_string_body s1 of
                None \<Rightarrow> None
              | Some (x, r) \<Rightarrow>
                  (case dropWhile json_ws r of
                     [] \<Rightarrow> None
                   | d # r1 \<Rightarrow>
                       (if d = CHR '','' then map_option (Cons x) (json_elements (dropWhile json_ws r1))
                        else if d = CHR '']'' then (if dropWhile json_ws r1 = [] then Some [x] else None)
                        else None)))))"
  by pat_completeness auto
termination
proof (relation "measure length", goal_cases)
  case 1
  show ?case by simp
next
  case (2 s c s1 y x r d r1)
  have "length r < length s1" using 2 by (auto dest: json_string_body_shorter)
  moreover have "length (dropWhile json_ws r) \<le> length r" by (rule length_dropWhile_le)
  moreover have "length (dropWhile json_ws r1) \<le> length r1" by (rule length_dropWhile_le)
  ultimately show ?case using 2 by simp
qed

definition JSON_parse :: "string \<Rightarrow> string list option" where
  "JSON_parse s =
     (case dropWhile json_ws s of
        [] \<Rightarrow> None
      | c # r \<Rightarrow>
          (if c \<noteq> CHR ''['' then None
           else
             (case dropWhile json_ws r of
                [] \<Rightarrow> None
              | d # r1 \<Rightarrow>
                  (if d = CHR '']'' then (if dropWhile json_ws r1 = [] then Some [] else None)
                   else json_elements (d # r1)))))"

subsection \<open>extractCodeExamples\<close>

text \<open>
  The five patterns \<^verbatim>\<open>/DeadlineCon\.[\w.]+\([^)]*\)/g\<close>, \<^verbatim>\<open>/import\s+[\w.]+/g\<close>,
  \<^verbatim>\<open>/def\s+\w+\([^)]*\):/g\<close>, \<^verbatim>\<open>/class\s+\w+[\w\s(,)]*:/g\<close> and
  \<^verbatim>\<open>/\w+\s*=\s*DeadlineCon\.\w+/g\<close>.
\<close>

definition codePatterns :: "item list list" where
  "codePatterns =
     [lit ''DeadlineCon.'' @
        [(\<lambda>c. is_word c \<or> c = CHR ''.'', Plus), (\<lambda>c. c = CHR ''('', One),
         (\<lambda>c. c \<noteq> CHR '')'', Star), (\<lambda>c. c = CHR '')'', One)],
      lit ''import'' @ [(is_space, Plus), (\<lambda>c. is_word c \<or> c = CHR ''.'', Plus)],
      lit ''def'' @
        [(is_space, Plus), (is_word, Plus), (\<lambda>c. c = CHR ''('', One),
         (\<lambda>c. c \<noteq> CHR '')'', Star), (\<lambda>c. c = CHR '')'', One), (\<lambda>c. c = CHR '':'', One)],
      lit ''class'' @
        [(is_space, Plus), (is_word, Plus),
         (\<lambda>c. is_word c \<or> is_space c \<or> c \<in> set ''(,)'', Star), (\<lambda>c. c = CHR '':'', One)],
      [(is_word, Plus), (is_space, Star), (\<lambda>c. c = CHR ''='', One), (is_space, Star)] @
        lit ''DeadlineCon.'' @ [(is_word, Plus)]]"

definition Search_extractCodeExamples :: "string \<Rightarrow> string list" where
  "Search_extractCodeExamples content =
     dedupe (concat (map (\<lambda>pattern. take 3 (match_all pattern content)) codePatterns))"

subsection \<open>From a row to a DocumentSection\<close>

text \<open>
  The object literal that \<^verbatim>\<open>getDocumentById\<close>, \<^verbatim>\<open>browseSections\<close> and
  \<^verbatim>\<open>searchDocumentation\<close> each build from a row:
  \<^verbatim>\<open>{ id: row.id, title: row.title, content: row.content, section: row.section || '',
  docType: row.doc_type, url: row.url, keywords: JSON.parse(row.keywords || '[]'),
  codeExamples: this.extractCodeExamples(row.content) }\<close>.
  \<^verbatim>\<open>JSON.parse\<close> raises on a malformed text, and \<^verbatim>\<open>content.match\<close> raises when the
  content is not a string.
\<close>

definition toDocumentSection :: "(string \<times> jsval) list \<Rightarrow> error + jsval DocumentSection" where
  "toDocumentSection row =
     (case (case (if truthy (js_prop row ''keywords'') then js_prop row ''keywords'' else Str ''[]'') of
              Str s \<Rightarrow> JSON_parse s
            | _ \<Rightarrow> None) of
        None \<Rightarrow> Inl SyntaxError
      | Some keywords \<Rightarrow>
          (case js_prop row ''content'' of
             Str content \<Rightarrow>
               Inr \<lparr>d_id = js_prop row ''id'',
                    d_title = js_prop row ''title'',
                    d_content = js_prop row ''content'',
                    d_url = js_prop row ''url'',
                    d_docType = js_prop row ''doc_type'',
                    d_section = (if truthy (js_prop row ''section'') then js_prop row ''section'' else Str []),
                    d_codeExamples = Search_extractCodeExamples content,
                    d_keywords = keywords\<rparr>
           | _ \<Rightarrow> Inl TypeError))"

fun map_result :: "('a \<Rightarrow> error + 'b) \<Rightarrow> 'a list \<Rightarrow> error + 'b list" where
  "map_result f [] = Inr []"
| "map_result f (x # xs) =
     (case f x of
        Inl e \<Rightarrow> Inl e
      | Inr y \<Rightarrow> (case map_result f xs of Inl e \<Rightarrow> Inl e | Inr ys \<Rightarrow> Inr (y # ys)))"

subsection \<open>getDocumentById\<close>

text \<open>\<^verbatim>\<open>SELECT * FROM documents WHERE id = ?\<close>, of which \<^verbatim>\<open>db.get\<close> takes the first row.\<close>

definition getDocumentById :: "database \<Rightarrow> string \<Rightarrow> error + jsval DocumentSection option" where
  "getDocumentById db ident =
     (case documents db of
        None \<Rightarrow> Inl (NoSuchTable ''documents'')
      | Some t \<Rightarrow>
          (if \<not> has_column t ''id'' then Inl (NoSuchColumn ''id'')
           else
             (case find (\<lambda>(_, vals). col t ''id'' vals = SqlText ident) (rows t) of
                None \<Rightarrow> Inr None
              | Some (_, vals) \<Rightarrow>
                  (case toDocumentSection (row_object t vals) of
                     Inl e \<Rightarrow> Inl e
                   | Inr d \<Rightarrow> Inr (Some d)))))"

subsection \<open>browseSections\<close>

text \<open>The operator \<^verbatim>\<open>LIKE\<close>: \<^verbatim>\<open>%\<close> stands for any text, \<^verbatim>\<open>_\<close> for any one character, and
  letters match without regard to ASCII case. On \<^verbatim>\<open>NULL\<close> it is not true.\<close>

fun sql_like :: "string \<Rightarrow> string \<Rightarrow> bool" where
  "sql_like [] t = (t = [])"
| "sql_like (p # ps) t =
     (if p = CHR ''%'' then
        (sql_like ps t \<or> (case t of [] \<Rightarrow> False | _ # t' \<Rightarrow> sql_like (p # ps) t'))
      else if p = CHR ''_'' then (case t of [] \<Rightarrow> False | _ # t' \<Rightarrow> sql_like ps t')
      else (case t of [] \<Rightarrow> False | c # t' \<Rightarrow> ascii_lower [p] = ascii_lower [c] \<and> sql_like ps t'))"

definition like_val :: "string \<Rightarrow> sqlval \<Rightarrow> bool" where
  "like_val p v = (case v of SqlNull \<Rightarrow> False | SqlText s \<Rightarrow> sql_like p s)"

text \<open>
  \<^verbatim>\<open>SELECT * FROM documents WHERE section LIKE ? OR title LIKE ?\<close>, then
  \<^verbatim>\<open> AND doc_type = ?\<close> when a type is given, then \<^verbatim>\<open> ORDER BY title LIMIT 20\<close>; both
  patterns are \<^verbatim>\<open>%section%\<close>. In SQL \<^verbatim>\<open>AND\<close> binds tighter than \<^verbatim>\<open>OR\<close>, so the type
  condition belongs to the title alone. \<^verbatim>\<open>NULL\<close> sorts first; rows of equal title keep
  their rowid order.
\<close>

definition browseSections ::
  "database \<Rightarrow> string \<Rightarrow> string option \<Rightarrow> error + jsval DocumentSection list" where
  "browseSections db sectionName docType =
     (let filtered = (case docType of None \<Rightarrow> False | Some dt \<Rightarrow> dt \<noteq> []) in
      case documents db of
        None \<Rightarrow> Inl (NoSuchTable ''documents'')
      | Some t \<Rightarrow>
          (case find (\<lambda>c. \<not> has_column t c)
                  ([''section'', ''title''] @ (if filtered then [''doc_type''] else [])) of
             Some c \<Rightarrow> Inl (NoSuchColumn c)
           | None \<Rightarrow>
               (let pattern = ''%'' @ sectionName @ ''%'';
                    selected =
                      filter (\<lambda>(_, vals).
                         like_val pattern (col t ''section'' vals) \<or>
                         (like_val pattern (col t ''title'' vals) \<and>
                          (if filtered then col t ''doc_type'' vals = SqlText (the docType) else True)))
                        (rows t);
                    ordered = sort_key (\<lambda>(_, vals). sql_key (col t ''title'' vals)) selected;
                    limited = take 20 ordered
                in map_result (\<lambda>(_, vals). toDocumentSection (row_object t vals)) limited)))"

subsection \<open>searchDocumentation\<close>

text \<open>
  The full-text engine FTS5 is not part of the source. It is a parameter: for a query text
  and the rows of the full-text table it gives a syntax error, or the rowids that match,
  each with its \<^verbatim>\<open>rank\<close> and the value of \<^verbatim>\<open>highlight(documents_fts, 1, '<mark>', '</mark>')\<close>.
\<close>

type_synonym 'r fts5 = "string \<Rightarrow> (nat \<times> sqlval list) list \<Rightarrow> error + (nat \<times> 'r \<times> sqlval) list"

text \<open>\<^verbatim>\<open>LIMIT n\<close>: a negative \<open>n\<close> is no limit.\<close>

definition sql_limit :: "int \<Rightarrow> 'a list \<Rightarrow> 'a list" where
  "sql_limit n xs = (if n < 0 then xs else take (nat n) xs)"

text \<open>
  The statement selects \<^verbatim>\<open>d.id, d.title, d.content, d.section, d.doc_type, d.url,
  d.keywords\<close>, the highlight and the rank from \<^verbatim>\<open>documents_fts JOIN documents d ON d.rowid =
  documents_fts.rowid WHERE documents_fts MATCH ?\<close>, adds \<^verbatim>\<open> AND d.doc_type = ?\<close> when a type
  is given, and ends with \<^verbatim>\<open> ORDER BY rank LIMIT ?\<close>. The statement is compiled before it
  runs, so a missing table or column is reported before the query text is looked at. The
  limit defaults to 10.
\<close>

definition searchDocumentation ::
  "('r::linorder) fts5 \<Rightarrow> database \<Rightarrow> string \<Rightarrow> string option \<Rightarrow> int option \<Rightarrow>
     error + (jsval, 'r) SearchResult list" where
  "searchDocumentation fts db query docType limit_arg =
     (let limit = (case limit_arg of None \<Rightarrow> 10 | Some n \<Rightarrow> n);
          filtered = (case docType of None \<Rightarrow> False | Some dt \<Rightarrow> dt \<noteq> []) in
      case documents_fts db of
        None \<Rightarrow> Inl (NoSuchTable ''documents_fts'')
      | Some index \<Rightarrow>
          (case documents db of
             None \<Rightarrow> Inl (NoSuchTable ''documents'')
           | Some t \<Rightarrow>
               (case find (\<lambda>c. \<not> has_column t c)
                       [''id'', ''title'', ''content'', ''section'', ''doc_type'', ''url'', ''keywords''] of
                  Some c \<Rightarrow> Inl (NoSuchColumn (''d.'' @ c))
                | None \<Rightarrow>
                    (case fts query index of
                       Inl e \<Rightarrow> Inl e
                     | Inr hits \<Rightarrow>
                         (let joined =
                                concat (map (\<lambda>(rowid, rank, highlighted).
                                   map (\<lambda>(_, vals). (vals, rank, highlighted))
                                     (filter (\<lambda>(rid, _). rid = rowid) (rows t))) hits);
                              selected =
                                (if filtered
                                 then filter (\<lambda>(vals, _, _). col t ''doc_type'' vals = SqlText (the docType)) joined
                                 else joined);
                              ordered = sort_key (\<lambda>(_, rank, _). rank) selected;
                              limited = sql_limit limit ordered
                          in map_result (\<lambda>(vals, rank, highlighted).
                               (case toDocumentSection
                                       (map (\<lambda>c. (c, js_of (col t c vals)))
                                          [''id'', ''title'', ''content'', ''section'', ''doc_type'', ''url'', ''keywords'']) of
                                  Inl e \<Rightarrow> Inl e
                                | Inr d \<Rightarrow>
                                    (if truthy (js_of highlighted)
                                     then Inr \<lparr>r_section = d, r_score = rank, r_matches = [js_of highlighted]\<rparr>
                                     else
                                       (case js_of (col t ''content'' vals) of
                                          Str content \<Rightarrow>
                                            Inr \<lparr>r_section = d, r_score = rank,
                                                 r_matches = [Str (take 300 content)]\<rparr>
                                        | _ \<Rightarrow> Inl TypeError))))
                               limited)))))"

subsection \<open>getStats\<close>

record stats =
  st_total :: nat
  st_byType :: "string \<rightharpoonup> nat"

text \<open>\<^verbatim>\<open>byType[row.doc_type] = row.count\<close>: the key is the value as a string (\<^verbatim>\<open>"null"\<close> for
  \<^verbatim>\<open>NULL\<close>); assigning a number to \<^verbatim>\<open>__proto__\<close> changes nothing.\<close>

definition assign_count :: "(string \<rightharpoonup> nat) \<Rightarrow> string option \<Rightarrow> nat \<Rightarrow> (string \<rightharpoonup> nat)" where
  "assign_count m k n =
     (let key = (case k of None \<Rightarrow> ''null'' | Some s \<Rightarrow> s)
      in if key = ''__proto__'' then m else m(key \<mapsto> n))"

text \<open>\<^verbatim>\<open>SELECT COUNT(*) as total FROM documents\<close>, then
  \<^verbatim>\<open>SELECT doc_type, COUNT(*) as count FROM documents GROUP BY doc_type\<close>.\<close>

definition getStats :: "database \<Rightarrow> error + stats" where
  "getStats db =
     (case documents db of
        None \<Rightarrow> Inl (NoSuchTable ''documents'')
      | Some t \<Rightarrow>
          (let total = length (rows t)
           in if \<not> has_column t ''doc_type'' then Inl (NoSuchColumn ''doc_type'')
              else
                (let typeRows = group_counts (map (\<lambda>(_, vals). sql_key (col t ''doc_type'' vals)) (rows t))
                 in Inr \<lparr>st_total = total,
                         st_byType = fold (\<lambda>(k, n) m. assign_count m k n) typeRows Map.empty\<rparr>)))"

section \<open>The remote fallback (RemoteDeadlineSearch)\<close>

definition baseUrls :: "(string \<times> jsval) list" where
  "baseUrls =
     [(''user-manual'', Str ''https://docs.thinkboxsoftware.com/products/deadline/10.4/1_User%20Manual/''),
      (''scripting-reference'', Str ''https://docs.thinkboxsoftware.com/products/deadline/10.4/2_Scripting%20Reference/''),
      (''python-reference'', Str ''https://docs.thinkboxsoftware.com/products/deadline/10.4/3_Python%20Reference/'')]"

subsection \<open>getCuratedResults\<close>

definition jobSubmissionResult :: "(string, real) SearchResult" where
  "jobSubmissionResult =
     \<lparr>r_section =
        \<lparr>d_id = ''python-reference:job-submission'',
         d_title = ''Job Submission with Python'',
         d_content =
           ''To submit jobs to Deadline using Python, use the DeadlineCon class:\<newline>'' @
           ''\<newline>'' @
           ''import Deadline.DeadlineConnect as Connect\<newline>'' @
           ''\<newline>'' @
           ''# Connect to Deadline\<newline>'' @
           ''deadline = Connect.DeadlineCon('localhost', 8082)\<newline>'' @
           ''\<newline>'' @
           ''# Create job info\<newline>'' @
           ''JobInfo = {\<newline>'' @
           ''    \"Name\": \"My Render Job\",\<newline>'' @
           ''    \"UserName\": \"username\", \<newline>'' @
           ''    \"Frames\": \"1-100\",\<newline>'' @
           ''    \"Plugin\": \"Maya\"\<newline>'' @
           ''}\<newline>'' @
           ''\<newline>'' @
           ''# Create plugin info\<newline>'' @
           ''PluginInfo = {\<newline>'' @
           ''    \"Version\": \"2023\",\<newline>'' @
           ''    \"SceneFile\": \"/path/to/scene.ma\"\<newline>'' @
           ''}\<newline>'' @
           ''\<newline>'' @
           ''# Submit the job\<newline>'' @
           ''result = deadline.Jobs.SubmitJob(JobInfo, PluginInfo)'',
         d_url = ''https://docs.thinkboxsoftware.com/products/deadline/10.4/3_Python%20Reference/'',
         d_docType = ''python-reference'',
         d_section = ''Job Submission'',
         d_codeExamples =
           [''import Deadline.DeadlineConnect as Connect\<newline>'' @
            ''deadline = Connect.DeadlineCon(\"localhost\", 8082)\<newline>'' @
            ''result = deadline.Jobs.SubmitJob(JobInfo, PluginInfo)''],
         d_keywords = [''submit'', ''job'', ''python'', ''DeadlineCon'']\<rparr>,
      r_score = 0.9,
      r_matches = [''Job submission using Python API'']\<rparr>"

definition deadlineConResult :: "(string, real) SearchResult" where
  "deadlineConResult =
     \<lparr>r_section =
        \<lparr>d_id = ''python-reference:deadlinecon'',
         d_title = ''DeadlineCon Connection'',
         d_content =
           ''DeadlineCon is the main class for connecting to Deadline Web Service:\<newline>'' @
           ''\<newline>'' @
           ''import Deadline.DeadlineConnect as Connect\<newline>'' @
           ''\<newline>'' @
           ''# Create connection\<newline>'' @
           ''connectionObject = Connect.DeadlineCon('WebServiceName', 8082)\<newline>'' @
           ''\<newline>'' @
           ''# Available methods:\<newline>'' @
           ''# - connectionObject.Jobs.GetJobs()\<newline>'' @
           ''# - connectionObject.Jobs.SubmitJob(jobInfo, pluginInfo)\<newline>'' @
           ''# - connectionObject.Groups.GetGroupNames()\<newline>'' @
           ''# - connectionObject.Repository.GetRootDirectory()'',
         d_url = ''https://docs.thinkboxsoftware.com/products/deadline/10.4/3_Python%20Reference/'',
         d_docType = ''python-reference'',
         d_section = ''DeadlineCon'',
         d_codeExamples =
           [''import Deadline.DeadlineConnect as Connect\<newline>'' @
            ''connectionObject = Connect.DeadlineCon(\"localhost\", 8082)''],
         d_keywords = [''DeadlineCon'', ''connection'', ''web service'']\<rparr>,
      r_score = 0.95,
      r_matches = [''DeadlineCon connection examples'']\<rparr>"

definition pluginDevelopmentResult :: "(string, real) SearchResult" where
  "pluginDevelopmentResult =
     \<lparr>r_section =
        \<lparr>d_id = ''scripting-reference:plugin-development'',
         d_title = ''Plugin Development'',
         d_content =
           ''Deadline plugins are Python scripts that define how applications are launched and monitored. Key components:\<newline>'' @
           ''\<newline>'' @
           ''1. Plugin Info File (.param) - Defines plugin parameters\<newline>'' @
           ''2. Plugin Script (.py) - Contains the plugin logic\<newline>'' @
           ''3. Event Plugin (optional) - Handles job events\<newline>'' @
           ''\<newline>'' @
           ''Basic plugin structure:\<newline>'' @
           ''- GetPluginInfo() - Returns plugin information\<newline>'' @
           ''- InitializeProcess() - Sets up the render process\<newline>'' @
           ''- StartJob() - Called when job starts\<newline>'' @
           ''- RenderTasks() - Main rendering logic'',
         d_url = ''https://docs.thinkboxsoftware.com/products/deadline/10.4/2_Scripting%20Reference/'',
         d_docType = ''scripting-reference'',
         d_section = ''Plugin Development'',
         d_codeExamples = [],
         d_keywords = [''plugin'', ''development'', ''scripting'']\<rparr>,
      r_score = 0.85,
      r_matches = [''Plugin development guide'']\<rparr>"

definition generalHelpResult :: "(string, real) SearchResult" where
  "generalHelpResult =
     \<lparr>r_section =
        \<lparr>d_id = ''general:help'',
         d_title = ''Deadline Documentation Help'',
         d_content =
           ''I can help you with Deadline documentation queries. Try asking about:\<newline>'' @
           ''\<newline>'' @
           ''- Job submission with Python\<newline>'' @
           ''- DeadlineCon connection examples  \<newline>'' @
           ''- Plugin development\<newline>'' @
           ''- Repository configuration\<newline>'' @
           ''- Worker/Slave management\<newline>'' @
           ''- Event plugins\<newline>'' @
           ''\<newline>'' @
           ''For complete documentation, visit:\<newline>'' @
           ''- User Manual: https://docs.thinkboxsoftware.com/products/deadline/10.4/1_User%20Manual/\<newline>'' @
           ''- Scripting Reference: https://docs.thinkboxsoftware.com/products/deadline/10.4/2_Scripting%20Reference/\<newline>'' @
           ''- Python Reference: https://docs.thinkboxsoftware.com/products/deadline/10.4/3_Python%20Reference/'',
         d_url = ''https://docs.thinkboxsoftware.com/products/deadline/10.4/'',
         d_docType = ''user-manual'',
         d_section = ''General Help'',
         d_codeExamples = [],
         d_keywords = [''help'', ''documentation'', ''deadline'']\<rparr>,
      r_score = 0.5,
      r_matches = [''General documentation help'']\<rparr>"

text \<open>The results are pushed in this order; the general help is the only result when no
  other was pushed. The type filter is not read.\<close>

definition getCuratedResults :: "string \<Rightarrow> string option \<Rightarrow> (string, real) SearchResult list" where
  "getCuratedResults query docType =
     (let lowerQuery = toLowerCase query;
          results =
            (if str_includes lowerQuery ''submit'' \<and> str_includes lowerQuery ''job''
             then [jobSubmissionResult] else []) @
            (if str_includes lowerQuery ''deadlinecon'' \<or> str_includes lowerQuery ''connection''
             then [deadlineConResult] else []) @
            (if str_includes lowerQuery ''plugin'' \<and>
                (str_includes lowerQuery ''create'' \<or> str_includes lowerQuery ''develop'')
             then [pluginDevelopmentResult] else [])
      in if length results = 0 then [generalHelpResult] else results)"

subsection \<open>searchDocumentation\<close>

text \<open>\<^verbatim>\<open>return results.slice(0, limit)\<close>, the limit defaulting to 10. The function has no
  failing path: its promise always resolves.\<close>

definition Remote_searchDocumentation ::
  "string \<Rightarrow> string option \<Rightarrow> int option \<Rightarrow> error + (string, real) SearchResult list" where
  "Remote_searchDocumentation query docType limit_arg =
     (let limit = (case limit_arg of None \<Rightarrow> 10 | Some n \<Rightarrow> n);
          results = getCuratedResults query docType
      in Inr (slice0 limit results))"

subsection \<open>getDocumentById\<close>

text \<open>
  \<^verbatim>\<open>const [docType, ...pathParts] = id.split(':')\<close>, and
  \<^verbatim>\<open>this.baseUrls[docType] || 'https://docs.thinkboxsoftware.com/products/deadline/10.4/'\<close>
  for the URL. \<^verbatim>\<open>baseUrls\<close> is a plain object, so the lookup also finds the members it
  inherits. The text of such a member inside the template literal of the content is the
  engine's; it is the parameter \<open>native_text\<close>.
\<close>

definition genericUrl :: string where
  "genericUrl = ''https://docs.thinkboxsoftware.com/products/deadline/10.4/''"

definition js_text :: "(string \<Rightarrow> string) \<Rightarrow> jsval \<Rightarrow> string" where
  "js_text native_text v =
     (case v of
        Undefined \<Rightarrow> ''undefined''
      | Null \<Rightarrow> ''null''
      | Str s \<Rightarrow> s
      | Native n \<Rightarrow> native_text n)"

definition Remote_getDocumentById ::
  "(string \<Rightarrow> string) \<Rightarrow> string \<Rightarrow> jsval DocumentSection option" where
  "Remote_getDocumentById native_text ident =
     (let parts = split_on (\<lambda>c. c = CHR '':'') ident;
          docType = hd parts;
          pathParts = tl parts;
          sectionName = join '':'' pathParts;
          found = js_prop baseUrls docType;
          link = (if truthy found then found else Str genericUrl)
      in Some
           \<lparr>d_id = Str ident,
            d_title = Str (''Remote Documentation: '' @ sectionName),
            d_content =
              Str (''This content is available in the online Deadline documentation. Please visit: '' @
                   js_text native_text link),
            d_url = link,
            d_docType = Str docType,
            d_section = Str sectionName,
            d_codeExamples = [],
            d_keywords = []\<rparr>)"

subsection \<open>getDocumentsBySection\<close>

definition getCommonSections :: "string \<Rightarrow> string option \<Rightarrow> string DocumentSection list" where
  "getCommonSections sectionName docType =
     (let lowerSection = toLowerCase sectionName
      in if str_includes lowerSection ''job''
         then [\<lparr>d_id = ''user-manual:jobs'',
                d_title = ''Jobs Overview'',
                d_content = ''Jobs are the fundamental unit of work in Deadline. Visit the online documentation for complete details.'',
                d_url = ''https://docs.thinkboxsoftware.com/products/deadline/10.4/1_User%20Manual/'',
                d_docType = ''user-manual'',
                d_section = ''Jobs'',
                d_codeExamples = [],
                d_keywords = [''jobs'', ''submission'', ''management'']\<rparr>]
         else [])"

definition Remote_getDocumentsBySection ::
  "string \<Rightarrow> string option \<Rightarrow> error + string DocumentSection list" where
  "Remote_getDocumentsBySection sectionName docType = Inr (getCommonSections sectionName docType)"

section \<open>Example inputs\<close>

text \<open>
  A small corpus: under the user manual's directory a page on job submission with one code
  element, a stub page whose body is too short, and a generated class list. The two other
  directories do not exist. The code element of the first page lies in its body and is
  matched by no selector of \<^verbatim>\<open>elementsToRemove\<close>, so its text is part of the text of the body,
  right after the text of the paragraph.
\<close>

definition example_html :: string where
  "example_html =
     ''<title>Submitting Jobs</title><body>'' @
     ''<p>Use the Monitor to submit a render job to the farm.</p>'' @
     ''<code>deadlinecommand job.txt plugin.txt</code></body>''"

definition example_page :: html_root where
  "example_page =
     \<lparr>querySelector = (\<lambda>sel. if sel = ''title'' then Some ''Submitting Jobs'' else None),
      strippedText = (\<lambda>sel removed.
         if sel = ''body''
         then Some ''Use the Monitor to submit a render job to the farm.deadlinecommand job.txt plugin.txt''
         else None),
      querySelectorAll = (\<lambda>sel.
         if sel = ''code'' then [''deadlinecommand job.txt plugin.txt''] else [])\<rparr>"

definition stub_html :: string where
  "stub_html = ''<title>Release Notes</title><body>Nothing here yet.</body>''"

definition stub_page :: html_root where
  "stub_page =
     \<lparr>querySelector = (\<lambda>sel. if sel = ''title'' then Some ''Release Notes'' else None),
      strippedText = (\<lambda>sel removed. if sel = ''body'' then Some ''Nothing here yet.'' else None),
      querySelectorAll = (\<lambda>sel. [])\<rparr>"

definition classes_html :: string where
  "classes_html =
     ''<title>Class List</title><body>'' @
     ''Here are the classes, structs, unions and interfaces with brief descriptions.'' @
     ''</body>''"

definition classes_page :: html_root where
  "classes_page =
     \<lparr>querySelector = (\<lambda>sel. if sel = ''title'' then Some ''Class List'' else None),
      strippedText = (\<lambda>sel removed.
         if sel = ''body''
         then Some ''Here are the classes, structs, unions and interfaces with brief descriptions.''
         else None),
      querySelectorAll = (\<lambda>sel. [])\<rparr>"

definition example_env :: node_env where
  "example_env =
     \<lparr>fs_access = (\<lambda>p. p = ''/docs/user''),
      fs_readFile = (\<lambda>p.
         if p = ''/docs/user/jobs/submit.html'' then Some example_html
         else if p = ''/docs/user/notes.html'' then Some stub_html
         else if p = ''/docs/user/classes.html'' then Some classes_html
         else None),
      glob = (\<lambda>pattern.
         if pattern = ''/docs/user/**/*.html''
         then [''/docs/user/jobs/submit.html'', ''/docs/user/notes.html'', ''/docs/user/classes.html'']
         else []),
      parse = (\<lambda>html.
         if html = example_html then example_page
         else if html = classes_html then classes_page
         else stub_page),
      path_join = (\<lambda>a b. a @ ''/'' @ b),
      path_relative = (\<lambda>from to. drop (length from + 1) to),
      path_basename = (\<lambda>p ext.
         if p = ''/docs/user/jobs/submit.html'' then ''submit''
         else if p = ''/docs/user/notes.html'' then ''notes''
         else ''classes'')\<rparr>"

text \<open>A corpus of one page, \<^verbatim>\<open>index.html\<close>, that has neither a title element nor a heading.\<close>

definition index_html :: string where
  "index_html = ''<body>Welcome to the user manual. Start with the chapter on installation.</body>''"

definition index_page :: html_root where
  "index_page =
     \<lparr>querySelector = (\<lambda>sel. None),
      strippedText = (\<lambda>sel removed.
         if sel = ''body''
         then Some ''Welcome to the user manual. Start with the chapter on installation.''
         else None),
      querySelectorAll = (\<lambda>sel. [])\<rparr>"

definition index_env :: node_env where
  "index_env =
     \<lparr>fs_access = (\<lambda>p. p = ''/docs/user''),
      fs_readFile = (\<lambda>p. if p = ''/docs/user/index.html'' then Some index_html else None),
      glob = (\<lambda>pattern. if pattern = ''/docs/user/**/*.html'' then [''/docs/user/index.html''] else []),
      parse = (\<lambda>html. index_page),
      path_join = (\<lambda>a b. a @ ''/'' @ b),
      path_relative = (\<lambda>from to. drop (length from + 1) to),
      path_basename = (\<lambda>p ext. ''index'')\<rparr>"

definition example_cfg :: config where
  "example_cfg =
     \<lparr>cfg_docsPath = ''/docs'',
      cfg_userManualPath = ''/docs/user'',
      cfg_scriptingReferencePath = ''/docs/scripting'',
      cfg_pythonReferencePath = ''/docs/python''\<rparr>"

text \<open>A database file without tables, and the store right after \<^verbatim>\<open>initDatabase\<close>.\<close>

definition empty_database :: database where
  "empty_database = \<lparr>documents = None, documents_fts = None, documents_ai = False\<rparr>"

definition fresh_store :: database where
  "fresh_store = \<lparr>documents = Some created_documents, documents_fts = Some [], documents_ai = True\<rparr>"

text \<open>The one document of the corpus that is stored, and the store after the indexing run.\<close>

definition example_document :: "string DocumentSection" where
  "example_document =
     \<lparr>d_id = ''user-manual:user/jobs/submit.html'',
      d_title = ''Submitting Jobs'',
      d_content = ''Use the Monitor to submit a render job to the farm.deadlinecommand job.txt plugin.txt deadlinecommand job.txt plugin.txt'',
      d_url = ''user/jobs/submit.html'',
      d_docType = ''user-manual'',
      d_section = ''jobs'',
      d_codeExamples = [''deadlinecommand job.txt plugin.txt''],
      d_keywords = [''deadline'', ''render'', ''job'', ''submit'', ''plugin'', ''monitor'', ''farm'', ''command'']\<rparr>"

definition example_store :: database where
  "example_store =
     \<lparr>documents = Some
        (created_documents
           \<lparr>rows :=
              [(1, [SqlText ''user-manual:user/jobs/submit.html'', SqlText ''Submitting Jobs'',
                    SqlText ''Use the Monitor to submit a render job to the farm.deadlinecommand job.txt plugin.txt deadlinecommand job.txt plugin.txt'',
                    SqlText ''jobs'', SqlText ''user-manual'', SqlText ''user/jobs/submit.html'',
                    SqlText (JSON_stringify [''deadline'', ''render'', ''job'', ''submit'', ''plugin'', ''monitor'', ''farm'', ''command''])])]\<rparr>),
      documents_fts = Some
        [(1, [SqlText ''Submitting Jobs'',
              SqlText ''Use the Monitor to submit a render job to the farm.deadlinecommand job.txt plugin.txt deadlinecommand job.txt plugin.txt'',
              SqlText (JSON_stringify [''deadline'', ''render'', ''job'', ''submit'', ''plugin'', ''monitor'', ''farm'', ''command'']),
              SqlText ''jobs'', SqlText ''user-manual''])],
      documents_ai = True\<rparr>"

text \<open>
  A store whose table names the type column \<^verbatim>\<open>doc_type\<close>, as the statements of the search
  class do (the indexer of this repository does not build such a table), with two
  documents of the section \<^verbatim>\<open>Jobs\<close>, one of each of two types.
\<close>

definition doc_type_store :: database where
  "doc_type_store =
     \<lparr>documents = Some
        \<lparr>columns = [''id'', ''title'', ''content'', ''section'', ''doc_type'', ''url'', ''keywords''],
         unique_cols = [''id''],
         notnull_cols = [''title'', ''content'', ''doc_type''],
         rows =
           [(1, [SqlText ''user-manual:user/jobs/submit.html'', SqlText ''Submitting Jobs'',
                 SqlText ''Use the Monitor to submit a job.'', SqlText ''Jobs'',
                 SqlText ''user-manual'', SqlText ''user/jobs/submit.html'',
                 SqlText (JSON_stringify [''job'', ''submit'', ''monitor''])]),
            (2, [SqlText ''scripting-reference:scripting/jobs/events.html'', SqlText ''Event Scripts'',
                 SqlText ''An event script runs when a job changes state.'', SqlText ''Jobs'',
                 SqlText ''scripting-reference'', SqlText ''scripting/jobs/events.html'',
                 SqlText (JSON_stringify [''job'', ''script'', ''event''])])]\<rparr>,
      documents_fts = Some
        [(1, [SqlText ''Submitting Jobs'', SqlText ''Use the Monitor to submit a job.'',
              SqlText (JSON_stringify [''job'', ''submit'', ''monitor'']), SqlText ''Jobs'',
              SqlText ''user-manual'']),
         (2, [SqlText ''Event Scripts'', SqlText ''An event script runs when a job changes state.'',
              SqlText (JSON_stringify [''job'', ''script'', ''event'']), SqlText ''Jobs'',
              SqlText ''scripting-reference''])],
      documents_ai = True\<rparr>"

text \<open>
  A stand-in for the full-text engine: the empty query is a syntax error; a row matches
  when one of its columns contains the query, without regard to case; later rows rank
  better; there is no highlighted text.
\<close>

definition example_fts :: "int fts5" where
  "example_fts query index =
     (if query = [] then Inl FtsSyntaxError
      else Inr (map (\<lambda>(rowid, vals). (rowid, - int rowid, SqlNull))
                  (filter (\<lambda>(rowid, vals).
                      list_ex (\<lambda>v. case v of SqlNull \<Rightarrow> False
                                     | SqlText s \<Rightarrow> str_includes (toLowerCase s) (toLowerCase query)) vals)
                    index)))"

text \<open>The stores the indexer works on: the table \<^verbatim>\<open>documents\<close> exists as \<^verbatim>\<open>initDatabase\<close>
  created it, with whatever rows.\<close>

definition indexer_store :: "database \<Rightarrow> bool" where
  "indexer_store db =
     (case documents db of None \<Rightarrow> False | Some t \<Rightarrow> t\<lparr>rows := []\<rparr> = created_documents)"

section \<open>Notions used in the statements\<close>

text \<open>A document of the indexer as the JavaScript object it is.\<close>

definition js_document :: "string DocumentSection \<Rightarrow> jsval DocumentSection" where
  "js_document doc =
     \<lparr>d_id = Str (d_id doc), d_title = Str (d_title doc), d_content = Str (d_content doc),
      d_url = Str (d_url doc), d_docType = Str (d_docType doc), d_section = Str (d_section doc),
      d_codeExamples = d_codeExamples doc, d_keywords = d_keywords doc\<rparr>"

text \<open>The stores an indexing run passes through: any number of further calls of
  \<^verbatim>\<open>processHtmlFile\<close>, on any files and types.\<close>

inductive indexing_steps :: "node_env \<Rightarrow> config \<Rightarrow> database \<Rightarrow> database \<Rightarrow> bool"
  for env :: node_env and cfg :: config where
  no_step: "indexing_steps env cfg db db"
| one_more: "indexing_steps env cfg db db' \<Longrightarrow>
     indexing_steps env cfg db (snd (processHtmlFile env cfg filePath docType db'))"








text \<open>The characters \<^verbatim>\<open>JSON.stringify\<close> writes as they are.\<close>

definition plain_char :: "char \<Rightarrow> bool" where
  "plain_char c = (c \<noteq> CHR 0x22 \<and> c \<noteq> CHR 0x5C \<and> \<not> (of_char c :: nat) < 32)"

section \<open>Facts about the regular expressions\<close>

declare match_all.simps [simp del] replace_all.simps [simp del]

lemma match_head_fail:
  "s = [] \<or> \<not> P (hd s) \<Longrightarrow> match_items ((P, One) # its) a s = None"
  by (cases s) auto

lemma match_one:
  "match_items [(P, One)] False s =
     (case s of [] \<Rightarrow> None | c # _ \<Rightarrow> if P c then Some [1] else None)"
  by (cases s) auto

lemma match_plus:
  "match_items [(P, Plus)] False s =
     (if takeWhile P s = [] then None else Some [length (takeWhile P s)])"
  by (cases "length (takeWhile P s)") auto

lemma replace_all_Nil:
  "replace_all p r [] = (case match_items p False [] of Some ls \<Rightarrow> r | None \<Rightarrow> [])"
  by (subst replace_all.simps) (simp split: option.splits)

lemma replace_all_Cons:
  "replace_all p r (c # t) =
     (case match_items p False (c # t) of
        Some ls \<Rightarrow>
          r @ (if sum_list ls = 0 then [c] else []) @ replace_all p r (drop (sum_list ls - 1) t)
      | None \<Rightarrow> c # replace_all p r t)"
  by (subst replace_all.simps) (simp split: option.splits add: Let_def)

text \<open>Deleting every character of a class is a filter.\<close>

lemma replace_one_filter: "replace_all [(P, One)] [] s = filter (\<lambda>c. \<not> P c) s"
  by (induction s) (simp_all add: replace_all_Nil replace_all_Cons match_one)

text \<open>Replacing the runs of a class leaves the replacement text and the characters
  outside the class.\<close>

lemma replace_plus_set:
  "set (replace_all [(P, Plus)] r s) \<subseteq> set r \<union> {c \<in> set s. \<not> P c}"
proof (induction "length s" arbitrary: s rule: less_induct)
  case less
  show ?case
  proof (cases s)
    case Nil
    then show ?thesis by (simp add: replace_all_Nil match_plus)
  next
    case (Cons c t)
    show ?thesis
    proof (cases "P c")
      case True
      have "set (replace_all [(P, Plus)] r (drop (length (takeWhile P t)) t))
              \<subseteq> set r \<union> {c \<in> set (drop (length (takeWhile P t)) t). \<not> P c}"
        using less(1) [of "drop (length (takeWhile P t)) t"] Cons by simp
      moreover have "set (drop (length (takeWhile P t)) t) \<subseteq> set t"
        by (rule set_drop_subset)
      ultimately show ?thesis using True Cons
        by (auto simp: replace_all_Cons match_plus)
    next
      case False
      then show ?thesis using less(1) [of t] Cons
        by (auto simp: replace_all_Cons match_plus)
    qed
  qed
qed

text \<open>The blank-line pattern needs a line feed to match.\<close>

lemma replace_blank_lines_id:
  "CHR 0x0A \<notin> set s \<Longrightarrow>
   replace_all [(\<lambda>c. c = CHR 0x0A, One), (is_space, Star), (\<lambda>c. c = CHR 0x0A, One)] r s = s"
proof (induction s)
  case Nil
  then show ?case by (simp add: replace_all_Nil)
next
  case (Cons c t)
  have "match_items [(\<lambda>c. c = CHR 0x0A, One), (is_space, Star), (\<lambda>c. c = CHR 0x0A, One)]
          False (c # t) = None"
    by (rule match_head_fail) (use Cons.prems in auto)
  then show ?case using Cons
    by (simp add: replace_all_Cons del: match_items.simps)
qed

lemma set_trim: "set (trim s) \<subseteq> set s"
  unfolding trim_def
  by (metis set_dropWhileD set_rev subsetI)

lemma dropWhile_id: "s = [] \<or> \<not> P (hd s) \<Longrightarrow> dropWhile P s = s"
  by (cases s) auto

lemma trim_trim: "trim (trim s) = trim s"
proof -
  define y where "y = dropWhile is_space s"
  define z where "z = dropWhile is_space (rev y)"
  have t: "trim s = rev z" by (simp add: trim_def y_def z_def)
  have hy: "y = [] \<or> \<not> is_space (hd y)" unfolding y_def by (metis hd_dropWhile)
  have hz: "z = [] \<or> \<not> is_space (hd z)" unfolding z_def by (metis hd_dropWhile)
  obtain u where u: "rev y = u @ z" unfolding z_def by (metis takeWhile_dropWhile_id)
  have lz: "z = [] \<or> \<not> is_space (last z)"
  proof (cases "z = []")
    case True
    then show ?thesis by simp
  next
    case False
    then have "last z = last (rev y)" using u by simp
    moreover have "y \<noteq> []" using u False by auto
    ultimately show ?thesis using hy by (simp add: last_rev)
  qed
  have 1: "dropWhile is_space (rev z) = rev z"
    by (rule dropWhile_id) (use lz in \<open>auto simp: hd_rev\<close>)
  have 2: "dropWhile is_space z = z"
    by (rule dropWhile_id) (use hz in auto)
  show ?thesis unfolding t by (simp add: trim_def 1 2)
qed

text \<open>Two neighbouring whitespace characters: where they are, and that reversing and
  trimming a string makes none.\<close>

lemma has_space_run_Cons:
  "has_space_run (a # s) = ((s \<noteq> [] \<and> is_space a \<and> is_space (hd s)) \<or> has_space_run s)"
  by (cases s) auto

lemma has_space_run_append: "has_space_run t \<Longrightarrow> has_space_run (pre @ t)"
  by (induction pre) (auto simp: has_space_run_Cons)

lemma has_space_run_iff:
  "has_space_run s \<longleftrightarrow> (\<exists>xs a b ys. s = xs @ a # b # ys \<and> is_space a \<and> is_space b)"
proof
  assume "has_space_run s"
  then show "\<exists>xs a b ys. s = xs @ a # b # ys \<and> is_space a \<and> is_space b"
  proof (induction s rule: has_space_run.induct)
    case (1 a b s)
    show ?case
    proof (cases "is_space a \<and> is_space b")
      case True
      then have "a # b # s = [] @ a # b # s \<and> is_space a \<and> is_space b" by simp
      then show ?thesis by blast
    next
      case False
      then have "has_space_run (b # s)" using 1(2) by auto
      then obtain xs a' b' ys where "b # s = xs @ a' # b' # ys" "is_space a'" "is_space b'"
        using 1(1) by blast
      then have "a # b # s = (a # xs) @ a' # b' # ys \<and> is_space a' \<and> is_space b'" by simp
      then show ?thesis by blast
    qed
  qed simp_all
next
  assume "\<exists>xs a b ys. s = xs @ a # b # ys \<and> is_space a \<and> is_space b"
  then obtain xs a b ys where "s = xs @ a # b # ys" "is_space a" "is_space b" by blast
  then show "has_space_run s" by (simp add: has_space_run_append)
qed

lemma has_space_run_rev: "has_space_run (rev s) = has_space_run s"
proof -
  have r: "has_space_run (rev t)" if "has_space_run t" for t
  proof -
    from that obtain xs a b ys where t: "t = xs @ a # b # ys" and ab: "is_space a" "is_space b"
      by (auto simp: has_space_run_iff)
    have "has_space_run (b # a # rev xs)" using ab by simp
    then have "has_space_run (rev ys @ b # a # rev xs)" by (rule has_space_run_append)
    then show ?thesis unfolding t by simp
  qed
  show ?thesis
  proof
    assume "has_space_run (rev s)"
    then have "has_space_run (rev (rev s))" by (rule r)
    then show "has_space_run s" by simp
  next
    assume "has_space_run s"
    then show "has_space_run (rev s)" by (rule r)
  qed
qed

lemma has_space_run_dropWhile: "has_space_run (dropWhile P s) \<Longrightarrow> has_space_run s"
  by (metis has_space_run_append takeWhile_dropWhile_id)

lemma has_space_run_trim: "has_space_run (trim s) \<Longrightarrow> has_space_run s"
  unfolding trim_def
  by (metis has_space_run_dropWhile has_space_run_rev)

text \<open>The first replacement, on a string that starts with whitespace and on one that does not.\<close>

lemma collapse_space:
  "is_space c \<Longrightarrow>
   replace_all [(is_space, Plus)] '' '' (c # t)
     = CHR 0x20 # replace_all [(is_space, Plus)] '' '' (dropWhile is_space t)"
  by (simp add: replace_all_Cons match_plus dropWhile_eq_drop)

lemma collapse_other:
  "\<not> is_space c \<Longrightarrow>
   replace_all [(is_space, Plus)] '' '' (c # t) = c # replace_all [(is_space, Plus)] '' '' t"
  by (simp add: replace_all_Cons match_plus)

lemma collapse_Nil: "replace_all [(is_space, Plus)] '' '' [] = []"
  by (simp add: replace_all_Nil match_plus)

lemma is_space_safe: "is_space c \<Longrightarrow> is_safe c"
  by (simp add: is_safe_def)

lemma is_space_blank: "is_space (CHR 0x20)"
  by (simp add: is_space_def)

text \<open>Where what is left of a string starts with whitespace, the string starts with
  characters that were deleted, followed by whitespace.\<close>

lemma kept_starts_with_space:
  assumes "filter is_safe (replace_all [(is_space, Plus)] '' '' t) \<noteq> []"
    and "is_space (hd (filter is_safe (replace_all [(is_space, Plus)] '' '' t)))"
  shows "\<exists>u b ys. t = u @ b # ys \<and> list_all (\<lambda>c. \<not> is_safe c) u \<and> is_space b"
  using assms
proof (induction t)
  case Nil
  then show ?case by (simp add: collapse_Nil)
next
  case (Cons c t)
  show ?case
  proof (cases "is_space c")
    case True
    then have "c # t = [] @ c # t \<and> list_all (\<lambda>c. \<not> is_safe c) [] \<and> is_space c" by simp
    then show ?thesis by blast
  next
    case False
    show ?thesis
    proof (cases "is_safe c")
      case True
      then show ?thesis using Cons.prems False by (simp add: collapse_other)
    next
      case unsafe: False
      then obtain u b ys where "t = u @ b # ys" "list_all (\<lambda>c. \<not> is_safe c) u" "is_space b"
        using Cons False by (auto simp: collapse_other)
      then have "c # t = (c # u) @ b # ys \<and> list_all (\<lambda>c. \<not> is_safe c) (c # u) \<and> is_space b"
        using unsafe by simp
      then show ?thesis by blast
    qed
  qed
qed

lemma stripped_between_append:
  assumes "\<exists>xs a u b ys. t = xs @ a # u @ b # ys \<and> is_space a \<and> is_space b \<and> u \<noteq> [] \<and>
             list_all (\<lambda>c. \<not> is_safe c) u"
  shows "\<exists>xs a u b ys. pre @ t = xs @ a # u @ b # ys \<and> is_space a \<and> is_space b \<and> u \<noteq> [] \<and>
             list_all (\<lambda>c. \<not> is_safe c) u"
proof -
  obtain xs a u b ys where "t = xs @ a # u @ b # ys" "is_space a" "is_space b" "u \<noteq> []"
    "list_all (\<lambda>c. \<not> is_safe c) u"
    using assms by blast
  then have "pre @ t = (pre @ xs) @ a # u @ b # ys \<and> is_space a \<and> is_space b \<and> u \<noteq> [] \<and>
             list_all (\<lambda>c. \<not> is_safe c) u"
    by simp
  then show ?thesis by blast
qed

lemma space_run_origin:
  "has_space_run (filter is_safe (replace_all [(is_space, Plus)] '' '' s)) \<Longrightarrow>
   \<exists>xs a u b ys. s = xs @ a # u @ b # ys \<and> is_space a \<and> is_space b \<and> u \<noteq> [] \<and>
      list_all (\<lambda>c. \<not> is_safe c) u"
proof (induction "length s" arbitrary: s rule: less_induct)
  case less
  show ?case
  proof (cases s)
    case Nil
    then show ?thesis using less.prems by (simp add: collapse_Nil)
  next
    case (Cons c t)
    show ?thesis
    proof (cases "is_space c")
      case False
      have "has_space_run (filter is_safe (replace_all [(is_space, Plus)] '' '' t))"
        using less.prems False unfolding Cons
        by (auto simp: collapse_other has_space_run_Cons split: if_splits)
      then have "\<exists>xs a u b ys. t = xs @ a # u @ b # ys \<and> is_space a \<and> is_space b \<and> u \<noteq> [] \<and>
          list_all (\<lambda>c. \<not> is_safe c) u"
        using less.hyps [of t] Cons by simp
      from stripped_between_append [OF this, of "[c]"] show ?thesis unfolding Cons by simp
    next
      case True
      define t' where "t' = dropWhile is_space t"
      define k where "k = filter is_safe (replace_all [(is_space, Plus)] '' '' t')"
      have s: "s = (c # takeWhile is_space t) @ t'"
        unfolding Cons t'_def by simp
      have r: "has_space_run (CHR 0x20 # k)"
        using less.prems True unfolding Cons k_def t'_def
        by (simp add: collapse_space is_space_safe is_space_blank)
      show ?thesis
      proof (cases "has_space_run k")
        case True
        have "length t' < length s" unfolding s by simp
        then have "\<exists>xs a u b ys. t' = xs @ a # u @ b # ys \<and> is_space a \<and> is_space b \<and> u \<noteq> [] \<and>
            list_all (\<lambda>c. \<not> is_safe c) u"
          using less.hyps [of t'] True unfolding k_def by simp
        from stripped_between_append [OF this, of "c # takeWhile is_space t"] show ?thesis
          unfolding s by simp
      next
        case False
        then have h: "k \<noteq> []" "is_space (hd k)"
          using r by (auto simp: has_space_run_Cons)
        then obtain u b ys where u: "t' = u @ b # ys" "list_all (\<lambda>c. \<not> is_safe c) u" "is_space b"
          unfolding k_def using kept_starts_with_space by blast
        have "t' \<noteq> []" using u(1) by simp
        then have "\<not> is_space (hd t')" unfolding t'_def by (metis hd_dropWhile)
        then have ne: "u \<noteq> []" using u(1,3) by (cases u) auto
        define pre where "pre = c # takeWhile is_space t"
        have "\<forall>x \<in> set pre. is_space x"
          unfolding pre_def using True by (auto dest: set_takeWhileD)
        moreover have "pre \<noteq> []" unfolding pre_def by simp
        ultimately have p: "pre \<noteq> []" "is_space (last pre)"
          using last_in_set by blast+
        have "s = butlast pre @ last pre # u @ b # ys"
          unfolding s u(1) using p(1) by (simp add: pre_def [symmetric])
        then show ?thesis using p(2) u(2,3) ne by blast
      qed
    qed
  qed
qed

lemma cleanText_pipeline:
  "cleanText s = trim (filter is_safe (replace_all [(is_space, Plus)] '' '' s))"
proof -
  define s1 where "s1 = replace_all [(is_space, Plus)] '' '' s"
  have a: "\<forall>c \<in> set s1. is_space c \<longrightarrow> c = CHR 0x20"
    using replace_plus_set [of is_space "'' ''" s] by (auto simp: s1_def)
  have "CHR 0x0A \<notin> set s1" using a by (auto simp: is_space_def)
  then have "replace_all [(\<lambda>c. c = CHR 0x0A, One), (is_space, Star), (\<lambda>c. c = CHR 0x0A, One)]
            [CHR 0x0A] s1 = s1"
    by (rule replace_blank_lines_id)
  then show ?thesis
    by (simp add: cleanText_def replace_one_filter s1_def)
qed

section \<open>C8: what text normalisation guarantees\<close>

text \<open>
  C8, as stated, fails in its last part: the whitespace runs are collapsed first and the
  characters outside the safe set are deleted afterwards, so a deleted character that
  stood between two spaces leaves them side by side. \<^verbatim>\<open>cleanText("a @ b")\<close> is
  \<^verbatim>\<open>"a  b"\<close>, with a run of two spaces.
\<close>

theorem cleanText_space_run_counterexample:
  "cleanText ''a @ b'' = ''a  b'' \<and> has_space_run (cleanText ''a @ b'')"
  by code_simp

text \<open>
  C8, amended: for every input string, \<^verbatim>\<open>cleanText\<close> returns a string that is trimmed
  (trimming it again changes nothing), that contains only characters of the safe set, and
  whose only whitespace character is the space U+0020. It contains two neighbouring
  whitespace characters only where the input has one or more characters outside the safe
  set standing between two whitespace characters; in particular the result of an input
  made of safe characters has no whitespace run longer than a single space.
\<close>

theorem cleanText_normalised:
  "trim (cleanText s) = cleanText s \<and>
   (\<forall>c \<in> set (cleanText s). is_safe c \<and> (is_space c \<longrightarrow> c = CHR 0x20)) \<and>
   (has_space_run (cleanText s) \<longrightarrow>
      (\<exists>xs a u b ys. s = xs @ a # u @ b # ys \<and> is_space a \<and> is_space b \<and> u \<noteq> [] \<and>
          list_all (\<lambda>c. \<not> is_safe c) u)) \<and>
   (list_all is_safe s \<longrightarrow> \<not> has_space_run (cleanText s))"
proof -
  define s1 where "s1 = replace_all [(is_space, Plus)] '' '' s"
  have c: "cleanText s = trim (filter is_safe s1)"
    unfolding s1_def by (rule cleanText_pipeline)
  have a: "\<forall>c \<in> set s1. is_space c \<longrightarrow> c = CHR 0x20"
    using replace_plus_set [of is_space "'' ''" s] by (auto simp: s1_def)
  have "set (cleanText s) \<subseteq> set (filter is_safe s1)" unfolding c by (rule set_trim)
  then have 1: "\<forall>c \<in> set (cleanText s). is_safe c \<and> (is_space c \<longrightarrow> c = CHR 0x20)"
    using a by auto
  have 2: "trim (cleanText s) = cleanText s" by (simp add: c trim_trim)
  have 3: "has_space_run (cleanText s) \<longrightarrow>
      (\<exists>xs a u b ys. s = xs @ a # u @ b # ys \<and> is_space a \<and> is_space b \<and> u \<noteq> [] \<and>
          list_all (\<lambda>c. \<not> is_safe c) u)"
    unfolding c s1_def by (blast dest: has_space_run_trim space_run_origin)
  have 4: "list_all is_safe s \<longrightarrow> \<not> has_space_run (cleanText s)"
  proof
    assume safe: "list_all is_safe s"
    show "\<not> has_space_run (cleanText s)"
    proof
      assume "has_space_run (cleanText s)"
      then obtain xs a u b ys where "s = xs @ a # u @ b # ys" "u \<noteq> []"
        "list_all (\<lambda>c. \<not> is_safe c) u"
        using 3 by blast
      then show False using safe by (cases u) auto
    qed
  qed
  show ?thesis using 1 2 3 4 by blast
qed

theorem cleanText_normalised_witness:
  "cleanText [CHR 0x09, CHR ''<'', CHR ''J'', CHR ''o'', CHR ''b'', CHR 0x0A, CHR 0x0A, CHR ''1'', CHR ''>'', CHR 0x20]
     = ''Job 1'' \<and>
   trim ''Job 1'' = ''Job 1'' \<and> list_all is_safe ''Job 1'' \<and> filter is_space ''Job 1'' = '' '' \<and>
   list_all is_safe [CHR ''J'', CHR ''o'', CHR ''b'', CHR 0x20, CHR 0x09, CHR 0x0A, CHR 0x20, CHR ''1''] \<and>
   has_space_run [CHR ''J'', CHR ''o'', CHR ''b'', CHR 0x20, CHR 0x09, CHR 0x0A, CHR 0x20, CHR ''1''] \<and>
   cleanText [CHR ''J'', CHR ''o'', CHR ''b'', CHR 0x20, CHR 0x09, CHR 0x0A, CHR 0x20, CHR ''1'']
     = ''Job 1'' \<and>
   \<not> has_space_run
       (cleanText [CHR ''J'', CHR ''o'', CHR ''b'', CHR 0x20, CHR 0x09, CHR 0x0A, CHR 0x20, CHR ''1'']) \<and>
   has_space_run (cleanText ''a @ b'') \<and>
   (\<exists>xs a u b ys. ''a @ b'' = xs @ a # u @ b # ys \<and> is_space a \<and> is_space b \<and> u \<noteq> [] \<and>
       list_all (\<lambda>c. \<not> is_safe c) u)"
proof -
  have e: "cleanText [CHR 0x09, CHR ''<'', CHR ''J'', CHR ''o'', CHR ''b'', CHR 0x0A, CHR 0x0A, CHR ''1'', CHR ''>'', CHR 0x20]
             = ''Job 1''"
    by code_simp
  have f: "filter is_space ''Job 1'' = '' ''"
    by (simp add: is_space_def)
  have 1: "trim ''Job 1'' = ''Job 1'' \<and> list_all is_safe ''Job 1''"
    using cleanText_normalised
      [of "[CHR 0x09, CHR ''<'', CHR ''J'', CHR ''o'', CHR ''b'', CHR 0x0A, CHR 0x0A, CHR ''1'', CHR ''>'', CHR 0x20]"]
    unfolding e by (simp add: is_space_def)
  have g: "list_all is_safe [CHR ''J'', CHR ''o'', CHR ''b'', CHR 0x20, CHR 0x09, CHR 0x0A, CHR 0x20, CHR ''1'']"
    "has_space_run [CHR ''J'', CHR ''o'', CHR ''b'', CHR 0x20, CHR 0x09, CHR 0x0A, CHR 0x20, CHR ''1'']"
    "cleanText [CHR ''J'', CHR ''o'', CHR ''b'', CHR 0x20, CHR 0x09, CHR 0x0A, CHR 0x20, CHR ''1''] = ''Job 1''"
    by code_simp+
  have 2: "\<not> has_space_run
       (cleanText [CHR ''J'', CHR ''o'', CHR ''b'', CHR 0x20, CHR 0x09, CHR 0x0A, CHR 0x20, CHR ''1''])"
    using cleanText_normalised
      [of "[CHR ''J'', CHR ''o'', CHR ''b'', CHR 0x20, CHR 0x09, CHR 0x0A, CHR 0x20, CHR ''1'']"] g(1)
    by blast
  have h: "has_space_run (cleanText ''a @ b'')"
    by code_simp
  have 3: "\<exists>xs a u b ys. ''a @ b'' = xs @ a # u @ b # ys \<and> is_space a \<and> is_space b \<and> u \<noteq> [] \<and>
       list_all (\<lambda>c. \<not> is_safe c) u"
    using cleanText_normalised [of "''a @ b''"] h by blast
  show ?thesis using e f 1 g 2 h 3 by blast
qed

section \<open>Facts about the store of the indexer\<close>

lemma initDatabase_fresh: "initDatabase db = fresh_store"
  by (cases db) (simp add: initDatabase_def fresh_store_def)

lemma indexer_store_fresh: "indexer_store fresh_store"
  by (simp add: indexer_store_def fresh_store_def created_documents_def)

lemma insertDocument_rows:
  assumes "insertDocument db doc = Inr db'" and "documents db = Some t"
  shows "documents db' = Some (t\<lparr>rows := rows t @ [(next_rowid (rows t), row_values t doc)]\<rparr>)"
  using assms
  by (auto simp: insertDocument_def Let_def split: option.splits if_splits)

lemma insertDocument_keeps_schema:
  "insertDocument db doc = Inr db' \<Longrightarrow> indexer_store db \<Longrightarrow> indexer_store db'"
  by (auto simp: indexer_store_def dest!: insertDocument_rows split: option.splits)

lemma processHtmlFile_keeps_schema:
  "indexer_store db \<Longrightarrow> indexer_store (snd (processHtmlFile env cfg filePath docType db))"
  by (auto simp: processHtmlFile_def split: option.splits sum.splits
           dest: insertDocument_keeps_schema)

lemma fold_process_keeps_schema:
  "indexer_store db \<Longrightarrow>
   indexer_store (fold (\<lambda>filePath d. snd (processHtmlFile env cfg filePath docType d)) files db)"
  by (induction files arbitrary: db) (simp_all add: processHtmlFile_keeps_schema)

lemma indexDocumentationType_keeps_schema:
  "indexer_store db \<Longrightarrow> indexer_store (indexDocumentationType env cfg docType docsPath db)"
  by (simp add: indexDocumentationType_def Let_def fold_process_keeps_schema)

lemma indexAllDocumentation_keeps_schema:
  "indexer_store db \<Longrightarrow> indexer_store (indexAllDocumentation env cfg db)"
  by (simp add: indexAllDocumentation_def Let_def indexDocumentationType_keeps_schema)

lemma runIndexer_store: "indexer_store (runIndexer env cfg db)"
  by (simp add: runIndexer_def initDatabase_fresh indexer_store_fresh
        indexAllDocumentation_keeps_schema)

lemma indexer_store_columns:
  "indexer_store db \<Longrightarrow> \<exists>t. documents db = Some t \<and> columns t = columns created_documents"
  by (auto simp: indexer_store_def split: option.splits)
     (metis sqltable.select_convs(1) sqltable.surjective sqltable.update_convs(4))

text \<open>The column names of the indexer's table, and their lower-case forms.\<close>

lemma lower_names:
  "ascii_lower ''id'' = ''id''" "ascii_lower ''title'' = ''title''"
  "ascii_lower ''content'' = ''content''" "ascii_lower ''section'' = ''section''"
  "ascii_lower ''docType'' = ''doctype''" "ascii_lower ''url'' = ''url''"
  "ascii_lower ''keywords'' = ''keywords''" "ascii_lower ''doc_type'' = ''doc_type''"
  by code_simp+

lemma created_columns:
  "columns created_documents = [''id'', ''title'', ''content'', ''section'', ''docType'', ''url'', ''keywords'']"
  by (simp add: created_documents_def)

text \<open>The row the indexer writes for a document.\<close>

lemma row_values_created:
  "columns t = columns created_documents \<Longrightarrow>
   row_values t doc =
     [SqlText (d_id doc), SqlText (d_title doc), SqlText (d_content doc), SqlText (d_section doc),
      SqlText (d_docType doc), SqlText (d_url doc), SqlText (JSON_stringify (d_keywords doc))]"
  by (simp add: row_values_def created_columns insert_columns_def lower_names)

lemma col_id_created:
  "columns t = columns created_documents \<Longrightarrow> col t ''id'' (v # vs) = v"
  by (simp add: col_def created_columns lower_names)

text \<open>The table of the indexer has a column \<^verbatim>\<open>docType\<close> and no column \<^verbatim>\<open>doc_type\<close>.\<close>

lemma no_doc_type_column:
  "columns t = columns created_documents \<Longrightarrow> \<not> has_column t ''doc_type''"
  by (simp add: has_column_def created_columns lower_names)

lemma has_docType_column:
  "columns t = columns created_documents \<Longrightarrow> has_column t ''docType''"
  by (simp add: has_column_def created_columns lower_names)

lemma getStats_indexer_store:
  "indexer_store db \<Longrightarrow> getStats db = Inl (NoSuchColumn ''doc_type'')"
  by (auto simp: getStats_def Let_def dest!: indexer_store_columns dest: no_doc_type_column)

text \<open>The indexer's own statistics name the column as the table declares it, and succeed.\<close>

lemma showIndexStats_indexer_store:
  "indexer_store db \<Longrightarrow> \<exists>n groups. showIndexStats db = Inr (n, groups)"
  by (auto simp: showIndexStats_def dest!: indexer_store_columns dest: has_docType_column)

lemma find_append:
  "find P (xs @ ys) = (case find P xs of None \<Rightarrow> find P ys | Some x \<Rightarrow> Some x)"
  by (induction xs) auto

lemma length_toLowerCase: "length (toLowerCase s) = length s"
  by (simp add: toLowerCase_def)

section \<open>Facts about the example corpus\<close>

text \<open>Of the three files of the example corpus the first is stored, the stub and the
  class list are not; the indexing run ends in \<^term>\<open>example_store\<close>.\<close>

lemma example_build:
  "buildDocument example_env example_cfg ''/docs/user/jobs/submit.html'' ''user-manual''
     = Some example_document"
  by code_simp

lemma example_build_notes:
  "buildDocument example_env example_cfg ''/docs/user/notes.html'' ''user-manual'' = None"
  by code_simp

lemma example_build_classes:
  "buildDocument example_env example_cfg ''/docs/user/classes.html'' ''user-manual'' = None"
  by code_simp

lemma example_insert: "insertDocument fresh_store example_document = Inr example_store"
  by code_simp

lemma example_run: "runIndexer example_env example_cfg empty_database = example_store"
proof -
  have a: "fs_access example_env ''/docs/user''" "\<not> fs_access example_env ''/docs/scripting''"
    "\<not> fs_access example_env ''/docs/python''"
    by (simp_all add: example_env_def)
  have g: "glob example_env (replace_char (CHR 0x5C) (CHR ''/'') (path_join example_env ''/docs/user'' ''**/*.html''))
             = [''/docs/user/jobs/submit.html'', ''/docs/user/notes.html'', ''/docs/user/classes.html'']"
    by (simp add: example_env_def replace_char_def)
  have c: "cfg_userManualPath example_cfg = ''/docs/user''"
    "cfg_scriptingReferencePath example_cfg = ''/docs/scripting''"
    "cfg_pythonReferencePath example_cfg = ''/docs/python''"
    by (simp_all add: example_cfg_def)
  show ?thesis
    unfolding runIndexer_def initDatabase_fresh indexAllDocumentation_def
      indexDocumentationType_def Let_def c
    by (simp add: a g processHtmlFile_def example_build example_build_notes
          example_build_classes example_insert)
qed

section \<open>C3: the statistics query\<close>

text \<open>
  C3 says that \<^verbatim>\<open>stats()\<close> succeeds in every state of the store and returns the total and
  the counts per type. On the code it never succeeds on a store the indexer built: after
  any indexing run, from any database and over any corpus, \<^verbatim>\<open>getStats\<close> is rejected with
  "no such column: doc_type", because the indexer declares the column as \<^verbatim>\<open>docType\<close>.
\<close>

theorem getStats_fails_after_indexing:
  "getStats (runIndexer env cfg db) = Inl (NoSuchColumn ''doc_type'')"
  by (rule getStats_indexer_store) (rule runIndexer_store)

text \<open>The query itself counts as it should: on a table that has the column \<^verbatim>\<open>doc_type\<close> the
  total is the number of rows, and each type (other than the texts \<^verbatim>\<open>null\<close> and
  \<^verbatim>\<open>__proto__\<close>) is mapped to the number of its rows, absent types to nothing.\<close>

lemma fold_assign_count:
  assumes "s \<noteq> ''null''" and "s \<noteq> ''__proto__''"
  shows "fold (\<lambda>(k, n) m. assign_count m k n) (map (\<lambda>k. (k, f k)) ks) m0 s
           = (if Some s \<in> set ks then Some (f (Some s)) else m0 s)"
proof (induction ks arbitrary: m0)
  case Nil
  show ?case by simp
next
  case (Cons k ks)
  have "assign_count m0 k (f k) s = (if k = Some s then Some (f k) else m0 s)"
    using assms by (cases k) (auto simp: assign_count_def Let_def)
  then show ?case by (auto simp: Cons.IH)
qed

lemma count_sql_key:
  "count_list (map (\<lambda>(_, vals). sql_key (g vals)) rs) (Some s)
     = length (filter (\<lambda>(_, vals). g vals = SqlText s) rs)"
  by (induction rs) (auto simp: sql_key_def split: sqlval.splits)

lemma getStats_counts:
  assumes "documents db = Some t" and "has_column t ''doc_type''"
    and "s \<noteq> ''null''" and "s \<noteq> ''__proto__''"
  shows "\<exists>st. getStats db = Inr st \<and> st_total st = length (rows t) \<and>
           st_byType st s =
             (let n = length (filter (\<lambda>(_, vals). col t ''doc_type'' vals = SqlText s) (rows t))
              in if n = 0 then None else Some n)"
proof -
  define ks where "ks = map (\<lambda>(_, vals). sql_key (col t ''doc_type'' vals)) (rows t)"
  have c: "count_list ks (Some s)
             = length (filter (\<lambda>(_, vals). col t ''doc_type'' vals = SqlText s) (rows t))"
    unfolding ks_def by (rule count_sql_key)
  have m: "Some s \<in> set ks \<longleftrightarrow> count_list ks (Some s) \<noteq> 0"
    by (simp add: count_list_0_iff)
  have f: "fold (\<lambda>(k, n) m. assign_count m k n)
             (map (\<lambda>k. (k, count_list ks k)) (sort (remdups ks))) Map.empty s
           = (if Some s \<in> set ks then Some (count_list ks (Some s)) else None)"
    using fold_assign_count [OF assms(3,4), of "count_list ks" "sort (remdups ks)" Map.empty]
    by simp
  have g: "getStats db =
      Inr \<lparr>st_total = length (rows t),
           st_byType = fold (\<lambda>(k, n) m. assign_count m k n)
             (map (\<lambda>k. (k, count_list ks k)) (sort (remdups ks))) Map.empty\<rparr>"
    using assms(1,2) by (simp add: getStats_def group_counts_def Let_def ks_def)
  show ?thesis
    unfolding g using f m c by (simp add: Let_def)
qed

section \<open>C6: pages with too little content\<close>

text \<open>
  C6: for every HTML file whose extracted main content, after normalisation, is shorter
  than 50 characters, no document is built and the store is left as it was, whatever the
  title of the page.
\<close>

theorem short_content_never_stored:
  assumes "fs_readFile env filePath = Some htmlContent"
    and "length (extractMainContent (parse env htmlContent)) < 50"
  shows "buildDocument env cfg filePath docType = None \<and>
         processHtmlFile env cfg filePath docType db = (False, db)"
  using assms by (simp add: processHtmlFile_def buildDocument_def Let_def)

theorem short_content_never_stored_witness:
  "pageTitle (parse example_env stub_html) = ''Release Notes'' \<and>
   extractMainContent (parse example_env stub_html) = ''Nothing here yet.'' \<and>
   buildDocument example_env example_cfg ''/docs/user/notes.html'' ''user-manual'' = None \<and>
   processHtmlFile example_env example_cfg ''/docs/user/notes.html'' ''user-manual'' fresh_store
     = (False, fresh_store)"
proof -
  have r: "fs_readFile example_env ''/docs/user/notes.html'' = Some stub_html"
    by (simp add: example_env_def)
  have t: "pageTitle (parse example_env stub_html) = ''Release Notes''"
    by code_simp
  have c: "extractMainContent (parse example_env stub_html) = ''Nothing here yet.''"
    by code_simp
  have l: "length (extractMainContent (parse example_env stub_html)) < 50"
    unfolding c by simp
  show ?thesis
    using short_content_never_stored [OF r l, of example_cfg "''user-manual''" fresh_store] t c
    by simp
qed

section \<open>C7: navigation pages\<close>

text \<open>
  C7 speaks of the resolved title, which by the specification falls back to the base name
  of the file. The code tests the title before that fallback: the page \<^verbatim>\<open>index.html\<close> of
  the one-page corpus has neither a title element nor a heading, so the title tested is
  empty and the page is not rejected; it is stored under the title \<^verbatim>\<open>index\<close>, which
  contains the listing phrase \<^verbatim>\<open>Index\<close>.
\<close>

theorem navigation_title_counterexample:
  "pageTitle (parse index_env index_html) = [] \<and>
   \<not> isNavigationPage (pageTitle (parse index_env index_html)) index_html \<and>
   map_option d_title (buildDocument index_env example_cfg ''/docs/user/index.html'' ''user-manual'')
     = Some ''index'' \<and>
   fst (processHtmlFile index_env example_cfg ''/docs/user/index.html'' ''user-manual'' fresh_store) \<and>
   ''Index'' \<in> set navIndicators \<and>
   str_includes (toLowerCase ''index'') (toLowerCase ''Index'')"
  by code_simp

text \<open>
  C7, amended: \<^verbatim>\<open>isNavigationPage\<close> holds exactly when the lower-cased title contains one of
  the eleven lower-cased listing phrases, or the lower-cased text of the file contains
  \<^verbatim>\<open>list of\<close> and the file is shorter than 1000 characters; the title is the one read from
  the page (the first heading if it has text, else the title element, else empty). So a
  page titled \<^verbatim>\<open>Class List\<close> is rejected whatever its length, and the length matters only
  together with \<^verbatim>\<open>list of\<close>. A file that is read and found to be a navigation page is not
  stored.
\<close>

theorem navigation_page_rule:
  "(isNavigationPage title content \<longleftrightarrow>
      (\<exists>indicator \<in> set navIndicators.
          str_includes (toLowerCase title) (toLowerCase indicator)) \<or>
      (str_includes (toLowerCase content) ''list of'' \<and> length content < 1000)) \<and>
   isNavigationPage ''Class List'' body \<and>
   (fs_readFile env filePath = Some content \<and>
    isNavigationPage (pageTitle (parse env content)) content \<longrightarrow>
      processHtmlFile env cfg filePath docType db = (False, db))"
proof -
  have "''Index'' \<in> set navIndicators" by (simp add: navIndicators_def)
  then have 1: "\<And>t c. isNavigationPage t c \<longleftrightarrow>
      (\<exists>indicator \<in> set navIndicators. str_includes (toLowerCase t) (toLowerCase indicator)) \<or>
      (str_includes (toLowerCase c) ''list of'' \<and> length c < 1000)"
    unfolding isNavigationPage_def Let_def list_ex_iff length_toLowerCase by blast
  have "\<exists>indicator \<in> set navIndicators.
          str_includes (toLowerCase ''Class List'') (toLowerCase indicator)"
    by code_simp
  then have 2: "isNavigationPage ''Class List'' body" unfolding 1 by blast
  have 3: "fs_readFile env filePath = Some content \<and>
      isNavigationPage (pageTitle (parse env content)) content \<longrightarrow>
      processHtmlFile env cfg filePath docType db = (False, db)"
    by (simp add: processHtmlFile_def buildDocument_def Let_def)
  show ?thesis using 1 2 3 by blast
qed

theorem navigation_page_rule_witness:
  "isNavigationPage ''Job Overview'' ''<p>A list of jobs</p>'' \<and>
   \<not> isNavigationPage ''Job Overview'' (''<p>A list of jobs</p>'' @ replicate 1000 (CHR ''x'')) \<and>
   \<not> isNavigationPage ''Job Overview'' ''<p>All jobs</p>'' \<and>
   isNavigationPage ''Class List'' (replicate 5000 (CHR ''x'')) \<and>
   extractMainContent (parse example_env classes_html)
     = ''Here are the classes, structs, unions and interfaces with brief descriptions.'' \<and>
   processHtmlFile example_env example_cfg ''/docs/user/classes.html'' ''user-manual'' fresh_store
     = (False, fresh_store)"
proof -
  have t: "\<not> (\<exists>indicator \<in> set navIndicators.
              str_includes (toLowerCase ''Job Overview'') (toLowerCase indicator))"
    by code_simp
  have p: "str_includes (toLowerCase ''<p>A list of jobs</p>'') ''list of''"
    by code_simp
  have q: "\<not> str_includes (toLowerCase ''<p>All jobs</p>'') ''list of''"
    by code_simp
  have a: "isNavigationPage ''Job Overview'' ''<p>A list of jobs</p>''"
    using navigation_page_rule [of "''Job Overview''" "''<p>A list of jobs</p>''"] p by simp
  have b: "\<not> isNavigationPage ''Job Overview'' (''<p>A list of jobs</p>'' @ replicate 1000 (CHR ''x''))"
    using navigation_page_rule
      [of "''Job Overview''" "''<p>A list of jobs</p>'' @ replicate 1000 (CHR ''x'')"] t
    by simp
  have c: "\<not> isNavigationPage ''Job Overview'' ''<p>All jobs</p>''"
    using navigation_page_rule [of "''Job Overview''" "''<p>All jobs</p>''"] t q by simp
  have d: "isNavigationPage ''Class List'' (replicate 5000 (CHR ''x''))"
    using navigation_page_rule [of _ _ "replicate 5000 (CHR ''x'')"] by blast
  have r: "fs_readFile example_env ''/docs/user/classes.html'' = Some classes_html"
    by (simp add: example_env_def)
  have pt: "pageTitle (parse example_env classes_html) = ''Class List''"
    by code_simp
  have m: "extractMainContent (parse example_env classes_html)
             = ''Here are the classes, structs, unions and interfaces with brief descriptions.''"
    by code_simp
  have e: "processHtmlFile example_env example_cfg ''/docs/user/classes.html'' ''user-manual'' fresh_store
             = (False, fresh_store)"
    using navigation_page_rule
      [of "''Class List''" classes_html classes_html example_env "''/docs/user/classes.html''"
          example_cfg "''user-manual''" fresh_store]
      r pt
    by metis
  show ?thesis using a b c d m e by blast
qed

section \<open>C9: rebuilding twice\<close>

subsection \<open>What an indexing run leaves in the store\<close>


















subsection \<open>The claim\<close>




section \<open>C4: the empty query\<close>






section \<open>C10: getById in the remote fallback\<close>

text \<open>What holds for every identifier: a document is returned, its id is the input and
  its type is the text before the first colon.\<close>

lemma Remote_getDocumentById_shape:
  "\<exists>d. Remote_getDocumentById native_text ident = Some d \<and> d_id d = Str ident \<and>
       d_docType d = Str (hd (split_on (\<lambda>c. c = CHR '':'') ident))"
  by (simp add: Remote_getDocumentById_def Let_def)

text \<open>The URL is the generic one for a type that is neither one of the three known types
  nor the name of a member inherited from \<^verbatim>\<open>Object.prototype\<close>.\<close>

lemma Remote_getDocumentById_generic:
  assumes "hd (split_on (\<lambda>c. c = CHR '':'') ident) \<notin> fst ` set baseUrls"
    and "hd (split_on (\<lambda>c. c = CHR '':'') ident) \<notin> set Object_prototype_members"
  shows "\<exists>d. Remote_getDocumentById native_text ident = Some d \<and> d_url d = Str genericUrl"
proof -
  have "map_of baseUrls (hd (split_on (\<lambda>c. c = CHR '':'') ident)) = None"
    using assms(1) by (simp add: map_of_eq_None_iff)
  then show ?thesis using assms(2)
    by (simp add: Remote_getDocumentById_def Let_def js_prop_def)
qed

text \<open>
  C10 says that the URL falls back to the generic documentation URL whenever the text
  before the first colon is not one of the three known types. For the identifier
  \<^verbatim>\<open>constructor:jobs\<close> it does not: \<^verbatim>\<open>this.baseUrls['constructor']\<close> is the function that
  every object inherits, which is truthy, so the URL of the returned document is that
  function and its content ends in the function's text.
\<close>

theorem remote_getDocumentById_inherited_member:
  "Remote_getDocumentById native_text ''constructor:jobs'' =
     Some \<lparr>d_id = Str ''constructor:jobs'',
           d_title = Str ''Remote Documentation: jobs'',
           d_content =
             Str (''This content is available in the online Deadline documentation. Please visit: '' @
                  native_text ''constructor''),
           d_url = Native ''constructor'',
           d_docType = Str ''constructor'',
           d_section = Str ''jobs'',
           d_codeExamples = [],
           d_keywords = []\<rparr>"
  by (simp add: Remote_getDocumentById_def Let_def js_prop_def baseUrls_def
        Object_prototype_members_def js_text_def)

section \<open>C5: the limits on the results\<close>

lemma map_result_length: "map_result f xs = Inr ys \<Longrightarrow> length ys = length xs"
  by (induction xs arbitrary: ys) (auto split: sum.splits)

lemma map_result_sql_limit:
  "map_result f (sql_limit n xs) = Inr ys \<Longrightarrow> 0 \<le> n \<Longrightarrow> int (length ys) \<le> n"
  by (auto dest!: map_result_length simp: sql_limit_def)

lemma map_result_take:
  "map_result f (take k xs) = Inr ys \<Longrightarrow> length ys \<le> k"
  by (auto dest!: map_result_length)

lemma length_slice0: "0 \<le> n \<Longrightarrow> int (length (slice0 n xs)) \<le> n"
  by (simp add: slice0_def)

lemma searchDocumentation_limit:
  assumes "searchDocumentation fts db query docType limit_arg = Inr rs"
    and "0 \<le> (case limit_arg of None \<Rightarrow> 10 | Some n \<Rightarrow> n)"
  shows "int (length rs) \<le> (case limit_arg of None \<Rightarrow> 10 | Some n \<Rightarrow> n)"
  using assms unfolding searchDocumentation_def Let_def
  by (auto simp del: find.simps split: option.splits sum.splits dest: map_result_sql_limit)

lemma browseSections_limit:
  "browseSections db sectionName docType = Inr ds \<Longrightarrow> length ds \<le> 20"
  unfolding browseSections_def Let_def
  by (auto simp del: find.simps split: option.splits dest: map_result_take)

lemma Remote_search_limit:
  assumes "Remote_searchDocumentation query docType limit_arg = Inr rs"
    and "0 \<le> (case limit_arg of None \<Rightarrow> 10 | Some n \<Rightarrow> n)"
  shows "int (length rs) \<le> (case limit_arg of None \<Rightarrow> 10 | Some n \<Rightarrow> n)"
  using assms by (auto simp: Remote_searchDocumentation_def Let_def length_slice0)

lemma Remote_sections_limit:
  "Remote_getDocumentsBySection sectionName docType = Inr ds \<Longrightarrow> length ds \<le> 20"
  by (auto simp: Remote_getDocumentsBySection_def getCommonSections_def Let_def)
lemma sum_length_cases: "map_sum id length x = Inr n \<Longrightarrow> \<exists>ys. x = Inr ys \<and> length ys = n"
  by (cases x) auto

text \<open>
  C5, as stated, fails for a limit below zero: \<^verbatim>\<open>results.slice(0, -1)\<close> drops the last of
  the curated results, so the remote search returns one result under the limit \<open>-1\<close>.
  (In the store-backed search \<^verbatim>\<open>LIMIT -1\<close> is no limit at all.)
\<close>

theorem result_limits_counterexample:
  "Remote_searchDocumentation ''submit job deadlinecon'' None (Some (- 1)) = Inr [jobSubmissionResult] \<and>
   \<not> int (length [jobSubmissionResult]) \<le> - 1"
  by code_simp

text \<open>
  C5, amended: for every limit that is not negative (the default of 10 included), a
  search that returns, store-backed or remote, returns at most \<open>limit\<close> results; and
  \<^verbatim>\<open>browseSections\<close>, store-backed or remote, returns at most 20 documents.
\<close>

theorem result_limits:
  assumes "0 \<le> (case limit_arg of None \<Rightarrow> 10 | Some n \<Rightarrow> n)"
  shows "(\<forall>rs. searchDocumentation fts db query docType limit_arg = Inr rs \<longrightarrow>
              int (length rs) \<le> (case limit_arg of None \<Rightarrow> 10 | Some n \<Rightarrow> n)) \<and>
         (\<forall>rs. Remote_searchDocumentation query docType limit_arg = Inr rs \<longrightarrow>
              int (length rs) \<le> (case limit_arg of None \<Rightarrow> 10 | Some n \<Rightarrow> n)) \<and>
         (\<forall>ds. browseSections db sectionName docType = Inr ds \<longrightarrow> length ds \<le> 20) \<and>
         (\<forall>ds. Remote_getDocumentsBySection sectionName docType = Inr ds \<longrightarrow> length ds \<le> 20)"
  using assms searchDocumentation_limit Remote_search_limit browseSections_limit
    Remote_sections_limit
  by blast

theorem result_limits_witness:
  "(\<exists>rs. searchDocumentation example_fts doc_type_store ''job'' None (Some 1) = Inr rs \<and>
         rs \<noteq> [] \<and> int (length rs) \<le> 1) \<and>
   (\<exists>rs. Remote_searchDocumentation ''submit job deadlinecon'' None None = Inr rs \<and>
         rs \<noteq> [] \<and> int (length rs) \<le> 10) \<and>
   (\<exists>ds. browseSections (runIndexer example_env example_cfg empty_database) ''job'' None = Inr ds \<and>
         ds \<noteq> [] \<and> length ds \<le> 20) \<and>
   (\<exists>ds. Remote_getDocumentsBySection ''Jobs'' None = Inr ds \<and> ds \<noteq> [] \<and> length ds \<le> 20)"
proof -
  have "map_sum id length (searchDocumentation example_fts doc_type_store ''job'' None (Some 1)) = Inr 1"
    by code_simp
  then obtain rs1 where 1: "searchDocumentation example_fts doc_type_store ''job'' None (Some 1) = Inr rs1"
    "length rs1 = 1"
    by (blast dest: sum_length_cases)
  have "map_sum id length (Remote_searchDocumentation ''submit job deadlinecon'' None None) = Inr 2"
    by code_simp
  then obtain rs2 where 2: "Remote_searchDocumentation ''submit job deadlinecon'' None None = Inr rs2"
    "length rs2 = 2"
    by (blast dest: sum_length_cases)
  have "map_sum id length (browseSections example_store ''job'' None) = Inr 1"
    by code_simp
  then obtain ds3 where 3: "browseSections (runIndexer example_env example_cfg empty_database) ''job'' None = Inr ds3"
    "length ds3 = 1"
    unfolding example_run by (blast dest: sum_length_cases)
  have "map_sum id length (Remote_getDocumentsBySection ''Jobs'' None) = Inr 1"
    by code_simp
  then obtain ds4 where 4: "Remote_getDocumentsBySection ''Jobs'' None = Inr ds4" "length ds4 = 1"
    by (blast dest: sum_length_cases)
  have a: "int (length rs1) \<le> 1"
    using result_limits [where limit_arg = "Some 1" and fts = example_fts and db = doc_type_store
        and query = "''job''" and docType = None and sectionName = "''job''"] 1(1)
    by force
  have b: "int (length rs2) \<le> 10"
    using result_limits [where limit_arg = None and fts = example_fts and db = doc_type_store
        and query = "''submit job deadlinecon''" and docType = None and sectionName = "''job''"] 2(1)
    by force
  have c: "length ds3 \<le> 20"
    using result_limits [where limit_arg = None and fts = example_fts
        and db = "runIndexer example_env example_cfg empty_database"
        and query = "''job''" and sectionName = "''job''" and docType = None] 3(1)
    by force
  have d: "length ds4 \<le> 20"
    using result_limits [where limit_arg = None and fts = example_fts and db = doc_type_store
        and query = "''job''" and sectionName = "''Jobs''" and docType = None] 4(1)
    by force
  have "rs1 \<noteq> []" "rs2 \<noteq> []" "ds3 \<noteq> []" "ds4 \<noteq> []"
    using 1(2) 2(2) 3(2) 4(2) by auto
  then show ?thesis using 1(1) 2(1) 3(1) 4(1) a b c d by blast
qed

section \<open>C2: the type filter\<close>

text \<open>On a store of the indexer every statement that names \<^verbatim>\<open>doc_type\<close> is rejected: the
  search as a whole, and the browse whenever a type is given.\<close>

lemma indexer_store_has_columns:
  assumes "indexer_store db" and "documents db = Some t"
  shows "has_column t ''id''" "has_column t ''title''" "has_column t ''content''"
    "has_column t ''section''" "\<not> has_column t ''doc_type''"
proof -
  have "columns t = columns created_documents"
    using assms indexer_store_columns by fastforce
  then show "has_column t ''id''" "has_column t ''title''" "has_column t ''content''"
    "has_column t ''section''" "\<not> has_column t ''doc_type''"
    by (simp_all add: has_column_def created_columns lower_names)
qed

lemma search_fails_on_indexer_store:
  assumes "indexer_store db" and "documents_fts db \<noteq> None"
  shows "searchDocumentation fts db query docType limit_arg = Inl (NoSuchColumn ''d.doc_type'')"
proof -
  obtain t where t: "documents db = Some t"
    using assms(1) by (auto simp: indexer_store_def split: option.splits)
  show ?thesis
    using assms(2) t indexer_store_has_columns [OF assms(1) t]
    by (auto simp: searchDocumentation_def Let_def split: option.splits)
qed

lemma browse_filtered_fails_on_indexer_store:
  assumes "indexer_store db" and "dt \<noteq> []"
  shows "browseSections db sectionName (Some dt) = Inl (NoSuchColumn ''doc_type'')"
proof -
  obtain t where t: "documents db = Some t"
    using assms(1) by (auto simp: indexer_store_def split: option.splits)
  show ?thesis
    using assms(2) t indexer_store_has_columns [OF assms(1) t]
    by (auto simp: browseSections_def Let_def split: option.splits)
qed

text \<open>Where the search returns, the filter holds: every result has the type asked for.\<close>

lemma map_result_set:
  "map_result f xs = Inr ys \<Longrightarrow> y \<in> set ys \<Longrightarrow> \<exists>x \<in> set xs. f x = Inr y"
  by (induction xs arbitrary: ys) (auto split: sum.splits)

lemma set_sql_limit: "set (sql_limit n xs) \<subseteq> set xs"
  by (auto simp: sql_limit_def dest: in_set_takeD)

lemma toDocumentSection_docType:
  "toDocumentSection row = Inr d \<Longrightarrow> d_docType d = js_prop row ''doc_type''"
  by (auto simp: toDocumentSection_def split: option.splits jsval.splits)

lemma search_filter_applied:
  assumes "searchDocumentation fts db query (Some dt) limit_arg = Inr rs" and "dt \<noteq> []"
    and "r \<in> set rs"
  shows "d_docType (r_section r) = Str dt"
proof -
  obtain t index hits where t: "documents db = Some t" "documents_fts db = Some index"
    "fts query index = Inr hits"
    using assms(1) unfolding searchDocumentation_def Let_def
    by (auto simp del: find.simps split: option.splits sum.splits)
  define joined where "joined = concat (map (\<lambda>(rowid, rank, highlighted).
       map (\<lambda>(_, vals). (vals, rank, highlighted))
         (filter (\<lambda>(rid, _). rid = rowid) (rows t))) hits)"
  define f where "f = (\<lambda>(vals, rank :: 'a, highlighted).
       (case toDocumentSection
               (map (\<lambda>c. (c, js_of (col t c vals)))
                  [''id'', ''title'', ''content'', ''section'', ''doc_type'', ''url'', ''keywords'']) of
          Inl e \<Rightarrow> Inl e
        | Inr d \<Rightarrow>
            (if truthy (js_of highlighted)
             then Inr \<lparr>r_section = d, r_score = rank, r_matches = [js_of highlighted]\<rparr>
             else
               (case js_of (col t ''content'' vals) of
                  Str content \<Rightarrow>
                    Inr \<lparr>r_section = d, r_score = rank, r_matches = [Str (take 300 content)]\<rparr>
                | _ \<Rightarrow> Inl TypeError))))"
  have m: "map_result f
      (sql_limit (case limit_arg of None \<Rightarrow> 10 | Some n \<Rightarrow> n)
        (sort_key (\<lambda>(_, rank, _). rank)
          (filter (\<lambda>(vals, _, _). col t ''doc_type'' vals = SqlText dt) joined))) = Inr rs"
    using assms(1,2) t unfolding searchDocumentation_def Let_def joined_def f_def
    by (auto simp del: find.simps split: option.splits sum.splits)
  then obtain x where x: "x \<in> set (sql_limit (case limit_arg of None \<Rightarrow> 10 | Some n \<Rightarrow> n)
        (sort_key (\<lambda>(_, rank, _). rank)
          (filter (\<lambda>(vals, _, _). col t ''doc_type'' vals = SqlText dt) joined)))" "f x = Inr r"
    using assms(3) by (blast dest: map_result_set)
  obtain vals rank highlighted where v: "x = (vals, rank, highlighted)" by (cases x) auto
  have "x \<in> set (filter (\<lambda>(vals, _, _). col t ''doc_type'' vals = SqlText dt) joined)"
    using x(1) set_sql_limit by fastforce
  then have c: "col t ''doc_type'' vals = SqlText dt" using v by simp
  obtain d where d: "toDocumentSection
               (map (\<lambda>c. (c, js_of (col t c vals)))
                  [''id'', ''title'', ''content'', ''section'', ''doc_type'', ''url'', ''keywords'']) = Inr d"
      "r_section r = d"
    using x(2) unfolding v f_def
    by (auto split: sum.splits if_splits jsval.splits)
  show ?thesis using toDocumentSection_docType [OF d(1)] d(2) c
    by (simp add: js_prop_def js_of_def)
qed

text \<open>
  C2 says that with a type filter every returned document has that type. On the store the
  indexer builds, a filtered browse and every search are rejected with "no such column:
  doc_type" and return nothing. On a table that does have the column, the filtered browse
  returns documents of other types: the statement reads \<^verbatim>\<open>section LIKE ? OR title LIKE ? AND
  doc_type = ?\<close>, where the type condition binds to the title alone, so the document of type
  \<^verbatim>\<open>scripting-reference\<close> whose section is \<^verbatim>\<open>Jobs\<close> is returned under the filter
  \<^verbatim>\<open>user-manual\<close>.
\<close>

theorem docType_filter_failures:
  "browseSections (runIndexer example_env example_cfg empty_database) ''job'' (Some ''user-manual'')
     = Inl (NoSuchColumn ''doc_type'') \<and>
   searchDocumentation example_fts (runIndexer example_env example_cfg empty_database) ''job''
       (Some ''user-manual'') None
     = Inl (NoSuchColumn ''d.doc_type'') \<and>
   map_sum id (map d_docType) (browseSections doc_type_store ''Jobs'' (Some ''user-manual''))
     = Inr [Str ''scripting-reference'', Str ''user-manual'']"
proof -
  have s: "indexer_store example_store" "documents_fts example_store \<noteq> None"
    by (simp_all add: indexer_store_def example_store_def created_documents_def)
  have "map_sum id (map d_docType) (browseSections doc_type_store ''Jobs'' (Some ''user-manual''))
     = Inr [Str ''scripting-reference'', Str ''user-manual'']"
    by code_simp
  then show ?thesis
    unfolding example_run
    using browse_filtered_fails_on_indexer_store [OF s(1), of "''user-manual''" "''job''"]
      search_fails_on_indexer_store [OF s, of example_fts "''job''" "Some ''user-manual''" None]
    by simp
qed

section \<open>C1: reading back what was indexed\<close>

subsection \<open>The keywords survive the JSON text\<close>

lemma json_escape_plain: "plain_char c \<Longrightarrow> json_escape c = [c]"
  by (auto simp: plain_char_def json_escape_def)

lemma concat_escape_plain: "list_all plain_char s \<Longrightarrow> concat (map json_escape s) = s"
  by (induction s) (simp_all add: json_escape_plain)

lemma json_string_body_plain:
  "list_all plain_char s \<Longrightarrow> json_string_body (s @ CHR 0x22 # rest) = Some (s, rest)"
  by (induction s) (auto simp: plain_char_def)

declare json_elements.simps [simp del]

lemma json_ws_quote: "\<not> json_ws (CHR 0x22)"
  by (simp add: json_ws_def)

lemma json_elements_quote:
  assumes "list_all plain_char k"
  shows "json_elements (json_quote k @ rest) =
     (case dropWhile json_ws rest of
        [] \<Rightarrow> None
      | d # r1 \<Rightarrow>
          (if d = CHR '','' then map_option (Cons k) (json_elements (dropWhile json_ws r1))
           else if d = CHR '']'' then (if dropWhile json_ws r1 = [] then Some [k] else None)
           else None))"
proof -
  have "json_quote k @ rest = CHR 0x22 # (k @ CHR 0x22 # rest)"
    by (simp add: json_quote_def concat_escape_plain [OF assms])
  then show ?thesis
    by (subst json_elements.simps) (simp add: json_string_body_plain [OF assms])
qed

lemma joined_quotes_start:
  "dropWhile json_ws (join '','' (map json_quote (k # ks)) @ rest)
     = join '','' (map json_quote (k # ks)) @ rest"
  by (cases ks) (simp_all add: json_quote_def json_ws_def)

lemma json_elements_plain:
  "list_all (list_all plain_char) (k # ks) \<Longrightarrow>
   json_elements (join '','' (map json_quote (k # ks)) @ '']'') = Some (k # ks)"
proof (induction ks arbitrary: k)
  case Nil
  then have p: "list_all plain_char k" by simp
  show ?case
    by (simp add: json_elements_quote [OF p] json_ws_def)
next
  case (Cons k' ks)
  then have p: "list_all plain_char k" and q: "list_all (list_all plain_char) (k' # ks)"
    by simp_all
  have "json_elements (join '','' (map json_quote (k # k' # ks)) @ '']'')
          = json_elements (json_quote k @ (CHR '','' # (join '','' (map json_quote (k' # ks)) @ '']'')))"
    by simp
  also have "\<dots> = map_option (Cons k)
       (json_elements (dropWhile json_ws (join '','' (map json_quote (k' # ks)) @ '']'')))"
    unfolding json_elements_quote [OF p] by (simp add: json_ws_def)
  also have "\<dots> = Some (k # k' # ks)"
    unfolding joined_quotes_start using Cons.IH [OF q] by simp
  finally show ?case .
qed

lemma JSON_roundtrip_plain:
  assumes "list_all (list_all plain_char) ks"
  shows "JSON_parse (JSON_stringify ks) = Some ks"
proof (cases ks)
  case Nil
  then show ?thesis by (simp add: JSON_parse_def JSON_stringify_def json_ws_def)
next
  case (Cons k ks')
  have e: "json_elements (join '','' (map json_quote (k # ks')) @ '']'') = Some (k # ks')"
    using assms unfolding Cons by (rule json_elements_plain)
  obtain rest where h: "join '','' (map json_quote (k # ks')) @ '']'' = CHR 0x22 # rest"
    by (cases ks') (simp_all add: json_quote_def)
  have "JSON_parse (CHR ''['' # CHR 0x22 # rest) = json_elements (CHR 0x22 # rest)"
    by (simp add: JSON_parse_def json_ws_def)
  then show ?thesis
    unfolding Cons JSON_stringify_def using e h by simp
qed



text \<open>The keywords of the indexer are vocabulary terms, all of plain characters.\<close>

lemma set_set_insert_all: "set (set_insert_all seen xs) = set seen \<union> set xs"
  by (induction xs arbitrary: seen) auto

lemma set_dedupe: "set (dedupe xs) = set xs"
  by (simp add: dedupe_def set_set_insert_all)

lemma vocabulary_plain: "list_all (list_all plain_char) (deadlineTerms @ progTerms)"
  by code_simp

lemma extractKeywords_plain: "list_all (list_all plain_char) (extractKeywords content title)"
proof -
  have "set (extractKeywords content title) \<subseteq> set (deadlineTerms @ progTerms)"
    by (auto simp: extractKeywords_def Let_def set_dedupe)
  then show ?thesis using vocabulary_plain
    unfolding list_all_iff by blast
qed

lemma buildDocument_keywords_plain:
  "buildDocument env cfg filePath docType = Some doc \<Longrightarrow>
   list_all (list_all plain_char) (d_keywords doc)"
  by (auto simp: buildDocument_def Let_def extractKeywords_plain split: option.splits if_splits)


subsection \<open>The row of a document and its lookup\<close>

lemma toDocumentSection_created:
  assumes "columns t = columns created_documents"
    and "list_all (list_all plain_char) (d_keywords doc)"
  shows "toDocumentSection (row_object t (row_values t doc)) =
     Inr \<lparr>d_id = Str (d_id doc), d_title = Str (d_title doc), d_content = Str (d_content doc),
          d_url = Str (d_url doc), d_docType = Undefined, d_section = Str (d_section doc),
          d_codeExamples = Search_extractCodeExamples (d_content doc),
          d_keywords = d_keywords doc\<rparr>"
proof -
  have k: "JSON_stringify (d_keywords doc) \<noteq> []" by (simp add: JSON_stringify_def)
  have o: "row_object t (row_values t doc) =
      [(''id'', Str (d_id doc)), (''title'', Str (d_title doc)), (''content'', Str (d_content doc)),
       (''section'', Str (d_section doc)), (''docType'', Str (d_docType doc)),
       (''url'', Str (d_url doc)), (''keywords'', Str (JSON_stringify (d_keywords doc)))]"
    using assms(1) by (simp add: row_object_def row_values_created js_of_def created_documents_def)
  show ?thesis
    unfolding o toDocumentSection_def
    by (simp add: js_prop_def Object_prototype_members_def k JSON_roundtrip_plain [OF assms(2)])
qed


lemma indexer_store_table:
  assumes "indexer_store db"
  obtains t where "documents db = Some t" "columns t = columns created_documents"
    "unique_cols t = [''id'']"
proof -
  obtain t where t: "documents db = Some t" "t\<lparr>rows := []\<rparr> = created_documents"
    using assms by (auto simp: indexer_store_def split: option.splits)
  have "columns (t\<lparr>rows := []\<rparr>) = columns created_documents"
    "unique_cols (t\<lparr>rows := []\<rparr>) = unique_cols created_documents"
    using t(2) by simp_all
  then have "columns t = columns created_documents" "unique_cols t = [''id'']"
    by (simp_all add: created_documents_def)
  then show ?thesis using that t(1) by blast
qed

lemma has_column_rows: "has_column (t\<lparr>rows := rs\<rparr>) c = has_column t c"
  by (simp add: has_column_def)

lemma col_rows: "col (t\<lparr>rows := rs\<rparr>) c vals = col t c vals"
  by (simp add: col_def)

lemma row_object_rows: "row_object (t\<lparr>rows := rs\<rparr>) vals = row_object t vals"
  by (simp add: row_object_def)

lemma insertDocument_id_new:
  assumes "insertDocument db doc = Inr db'" and "documents db = Some t"
    and "columns t = columns created_documents" and "unique_cols t = [''id'']"
  shows "find (\<lambda>(_, vals). col t ''id'' vals = SqlText (d_id doc)) (rows t) = None"
proof -
  have v: "col t ''id'' (row_values t doc) = SqlText (d_id doc)"
    by (simp add: row_values_created [OF assms(3)] col_id_created [OF assms(3)])
  have "find (\<lambda>c. col t c (row_values t doc) \<noteq> SqlNull \<and>
            list_ex (\<lambda>(_, old). col t c old = col t c (row_values t doc)) (rows t))
          (unique_cols t) = None"
    using assms(1,2)
    by (auto simp: insertDocument_def Let_def simp del: find.simps
             split: option.splits if_splits)
  then have "\<not> list_ex (\<lambda>(_, old). col t ''id'' old = SqlText (d_id doc)) (rows t)"
    unfolding assms(4) using v by (simp split: if_splits)
  then show ?thesis
    by (auto simp: find_None_iff list_ex_iff)
qed

lemma getDocumentById_inserted:
  assumes "indexer_store db" and "insertDocument db doc = Inr db1"
    and "list_all (list_all plain_char) (d_keywords doc)"
  shows "getDocumentById db1 (d_id doc) =
     Inr (Some \<lparr>d_id = Str (d_id doc), d_title = Str (d_title doc), d_content = Str (d_content doc),
                d_url = Str (d_url doc), d_docType = Undefined, d_section = Str (d_section doc),
                d_codeExamples = Search_extractCodeExamples (d_content doc),
                d_keywords = d_keywords doc\<rparr>)"
proof -
  obtain t where t: "documents db = Some t" "columns t = columns created_documents"
    "unique_cols t = [''id'']"
    using assms(1) by (rule indexer_store_table)
  have d1: "documents db1 = Some (t\<lparr>rows := rows t @ [(next_rowid (rows t), row_values t doc)]\<rparr>)"
    using assms(2) t(1) by (rule insertDocument_rows)
  have n: "find (\<lambda>(_, vals). col t ''id'' vals = SqlText (d_id doc)) (rows t) = None"
    using assms(2) t by (rule insertDocument_id_new)
  have v: "col t ''id'' (row_values t doc) = SqlText (d_id doc)"
    by (simp add: row_values_created [OF t(2)] col_id_created [OF t(2)])
  have h: "has_column t ''id''"
    using t(2) by (simp add: has_column_def created_columns lower_names)
  show ?thesis
    unfolding getDocumentById_def d1
    by (simp add: has_column_rows col_rows row_object_rows h find_append n v
          toDocumentSection_created [OF t(2) assms(3)])
qed

lemma getDocumentById_append:
  assumes "documents db = Some t" and "documents db' = Some (t\<lparr>rows := rows t @ extra\<rparr>)"
    and "getDocumentById db ident = Inr (Some found)"
  shows "getDocumentById db' ident = Inr (Some found)"
  using assms(3) unfolding getDocumentById_def assms(1,2)
  by (auto simp: has_column_rows col_rows row_object_rows find_append
           split: option.splits if_splits sum.splits)

lemma getDocumentById_step:
  assumes "getDocumentById db ident = Inr (Some found)"
  shows "getDocumentById (snd (processHtmlFile env cfg filePath docType db)) ident = Inr (Some found)"
proof (cases "fst (processHtmlFile env cfg filePath docType db)")
  case False
  then have "snd (processHtmlFile env cfg filePath docType db) = db"
    by (auto simp: processHtmlFile_def split: option.splits sum.splits)
  then show ?thesis using assms by simp
next
  case True
  then obtain doc db' where i: "insertDocument db doc = Inr db'"
    "snd (processHtmlFile env cfg filePath docType db) = db'"
    by (auto simp: processHtmlFile_def split: option.splits sum.splits)
  obtain t where t: "documents db = Some t"
    using assms by (auto simp: getDocumentById_def split: option.splits)
  show ?thesis
    unfolding i(2)
    using t insertDocument_rows [OF i(1) t] assms by (rule getDocumentById_append)
qed

lemma getDocumentById_steps:
  "indexing_steps env cfg db1 db2 \<Longrightarrow> getDocumentById db1 ident = Inr (Some found) \<Longrightarrow>
   getDocumentById db2 ident = Inr (Some found)"
  by (induction rule: indexing_steps.induct) (simp_all add: getDocumentById_step)

text \<open>The loops of the indexer are such sequences of steps.\<close>

lemma indexing_steps_trans:
  "indexing_steps env cfg db2 db3 \<Longrightarrow> indexing_steps env cfg db1 db2 \<Longrightarrow>
   indexing_steps env cfg db1 db3"
  by (induction rule: indexing_steps.induct) (auto intro: indexing_steps.intros)

lemma indexing_steps_fold:
  "indexing_steps env cfg db
     (fold (\<lambda>filePath d. snd (processHtmlFile env cfg filePath docType d)) files db)"
proof (induction files arbitrary: db)
  case Nil
  show ?case by (simp add: indexing_steps.no_step)
next
  case (Cons f files)
  have "indexing_steps env cfg db (snd (processHtmlFile env cfg f docType db))"
    by (rule indexing_steps.one_more) (rule indexing_steps.no_step)
  then show ?case using Cons.IH indexing_steps_trans by fastforce
qed

lemma indexing_steps_type:
  "indexing_steps env cfg db (indexDocumentationType env cfg docType docsPath db)"
  by (simp add: indexDocumentationType_def Let_def indexing_steps.no_step indexing_steps_fold)

lemma indexing_steps_run:
  "indexing_steps env cfg db (indexAllDocumentation env cfg db)"
  unfolding indexAllDocumentation_def Let_def
  by (blast intro: indexing_steps_type indexing_steps_trans)


subsection \<open>The claim\<close>

text \<open>
  C1, as stated, fails in two fields. After the example corpus is indexed,
  \<^verbatim>\<open>getDocumentById\<close> of the stored document's id returns a document whose \<^verbatim>\<open>docType\<close> is
  \<^verbatim>\<open>undefined\<close> (the row has a property \<^verbatim>\<open>docType\<close>, the code reads \<^verbatim>\<open>row.doc_type\<close>) and whose
  code examples are empty, where the indexed document has the type \<^verbatim>\<open>user-manual\<close> and one
  code example: the table has no column for the code examples, and the search class
  recomputes them from the content by its five patterns.
\<close>

theorem roundtrip_counterexample:
  "buildDocument example_env example_cfg ''/docs/user/jobs/submit.html'' ''user-manual''
     = Some example_document \<and>
   processHtmlFile example_env example_cfg ''/docs/user/jobs/submit.html'' ''user-manual'' fresh_store
     = (True, example_store) \<and>
   getDocumentById (runIndexer example_env example_cfg empty_database) (d_id example_document)
     = Inr (Some
         \<lparr>d_id = Str ''user-manual:user/jobs/submit.html'',
          d_title = Str ''Submitting Jobs'',
          d_content = Str ''Use the Monitor to submit a render job to the farm.deadlinecommand job.txt plugin.txt deadlinecommand job.txt plugin.txt'',
          d_url = Str ''user/jobs/submit.html'',
          d_docType = Undefined,
          d_section = Str ''jobs'',
          d_codeExamples = [],
          d_keywords = [''deadline'', ''render'', ''job'', ''submit'', ''plugin'', ''monitor'', ''farm'', ''command'']\<rparr>) \<and>
   getDocumentById (runIndexer example_env example_cfg empty_database) (d_id example_document)
     \<noteq> Inr (Some (js_document example_document))"
proof -
  have g: "getDocumentById example_store ''user-manual:user/jobs/submit.html''
     = Inr (Some
         \<lparr>d_id = Str ''user-manual:user/jobs/submit.html'',
          d_title = Str ''Submitting Jobs'',
          d_content = Str ''Use the Monitor to submit a render job to the farm.deadlinecommand job.txt plugin.txt deadlinecommand job.txt plugin.txt'',
          d_url = Str ''user/jobs/submit.html'',
          d_docType = Undefined,
          d_section = Str ''jobs'',
          d_codeExamples = [],
          d_keywords = [''deadline'', ''render'', ''job'', ''submit'', ''plugin'', ''monitor'', ''farm'', ''command'']\<rparr>)"
    by code_simp
  have i: "d_id example_document = ''user-manual:user/jobs/submit.html''"
    by (simp add: example_document_def)
  have p: "processHtmlFile example_env example_cfg ''/docs/user/jobs/submit.html'' ''user-manual'' fresh_store
     = (True, example_store)"
    by (simp add: processHtmlFile_def example_build example_insert)
  show ?thesis
    unfolding example_run i g
    by (simp add: example_build p js_document_def example_document_def)
qed

text \<open>
  C1, amended: for every document stored by a call of \<^verbatim>\<open>processHtmlFile\<close> on a store of the
  indexer, and at every later point of the indexing, \<^verbatim>\<open>getDocumentById\<close> of the document's
  id returns a document whose id, title, content, section, url and keywords are those of
  the document that was indexed, and whose code examples are what the five patterns of the
  search class find in the stored content. Nothing is said about the type of the document.
\<close>

theorem roundtrip_fields:
  assumes "indexer_store db"
    and "buildDocument env cfg filePath docType = Some doc"
    and "processHtmlFile env cfg filePath docType db = (True, db1)"
    and "indexing_steps env cfg db1 db2"
  shows "\<exists>found. getDocumentById db2 (d_id doc) = Inr (Some found) \<and>
           d_id found = Str (d_id doc) \<and> d_title found = Str (d_title doc) \<and>
           d_content found = Str (d_content doc) \<and> d_section found = Str (d_section doc) \<and>
           d_url found = Str (d_url doc) \<and> d_keywords found = d_keywords doc \<and>
           d_codeExamples found = Search_extractCodeExamples (d_content doc)"
proof -
  have i: "insertDocument db doc = Inr db1"
    using assms(2,3) by (auto simp: processHtmlFile_def split: sum.splits)
  have p: "list_all (list_all plain_char) (d_keywords doc)"
    using assms(2) by (rule buildDocument_keywords_plain)
  show ?thesis
    using getDocumentById_steps [OF assms(4) getDocumentById_inserted [OF assms(1) i p]]
    by simp
qed


theorem roundtrip_fields_witness:
  "\<exists>found.
     getDocumentById (runIndexer example_env example_cfg empty_database)
       ''user-manual:user/jobs/submit.html'' = Inr (Some found) \<and>
     d_id found = Str ''user-manual:user/jobs/submit.html'' \<and>
     d_title found = Str ''Submitting Jobs'' \<and>
     d_content found = Str ''Use the Monitor to submit a render job to the farm.deadlinecommand job.txt plugin.txt deadlinecommand job.txt plugin.txt'' \<and>
     d_section found = Str ''jobs'' \<and>
     d_url found = Str ''user/jobs/submit.html'' \<and>
     d_keywords found = [''deadline'', ''render'', ''job'', ''submit'', ''plugin'', ''monitor'', ''farm'', ''command''] \<and>
     d_codeExamples found =
       Search_extractCodeExamples
         ''Use the Monitor to submit a render job to the farm.deadlinecommand job.txt plugin.txt deadlinecommand job.txt plugin.txt''"
proof -
  have p: "processHtmlFile example_env example_cfg ''/docs/user/jobs/submit.html'' ''user-manual'' fresh_store
     = (True, example_store)"
    by (simp add: processHtmlFile_def example_build example_insert)
  have s: "indexing_steps example_env example_cfg example_store
             (runIndexer example_env example_cfg empty_database)"
    unfolding example_run by (rule indexing_steps.no_step)
  show ?thesis
    using roundtrip_fields [OF indexer_store_fresh example_build p s]
    by (simp add: example_document_def)
qed

end
